theory Spec2Isabelle
  imports Main "HOL-Library.AList"
begin

section \<open>JavaScript values and the string built-ins the providers use\<close>

text \<open>
  Filter values, bound parameters, rows and backend-native filter objects are untyped
  (\<open>any\<close>) in the source. They are modelled by one datatype of JavaScript values.
  Numbers are the integers (the fractional and exponent forms of doubles are outside the
  model); a string is its sequence of UTF-8 bytes; a \<open>Date\<close> carries the two texts the
  code can obtain from it (\<open>toISOString()\<close> and \<open>toString()\<close>); an object is its list of
  properties in insertion order.
\<close>

datatype jsvalue =
    VUndefined
  | VNull
  | VBool bool
  | VNum int
  | VStr string
  | VDate string string
  | VArr "jsvalue list"
  | VObj "(string \<times> jsvalue) list"

definition digit_char :: "nat \<Rightarrow> char" where
  "digit_char d = char_of (48 + d)"

fun show_nat :: "nat \<Rightarrow> string" where
  "show_nat n = (if n < 10 then [digit_char n] else show_nat (n div 10) @ [digit_char (n mod 10)])"

declare show_nat.simps [simp del]

definition show_int :: "int \<Rightarrow> string" where
  "show_int i = (if i < 0 then CHR ''-'' # show_nat (nat (- i)) else show_nat (nat i))"

text \<open>\<open>Array.prototype.join\<close> on strings.\<close>

fun join :: "string \<Rightarrow> string list \<Rightarrow> string" where
  "join sep [] = []"
| "join sep [x] = x"
| "join sep (x # y # ys) = x @ sep @ join sep (y # ys)"

text \<open>
  String coercion, as a template literal \<open>`${v}`\<close> performs it. Inside an array,
  \<open>null\<close> and \<open>undefined\<close> elements print as the empty string.
\<close>

fun js_to_string :: "jsvalue \<Rightarrow> string" where
  "js_to_string VUndefined = ''undefined''"
| "js_to_string VNull = ''null''"
| "js_to_string (VBool b) = (if b then ''true'' else ''false'')"
| "js_to_string (VNum n) = show_int n"
| "js_to_string (VStr s) = s"
| "js_to_string (VDate isotext disp) = disp"
| "js_to_string (VArr xs) =
     join '','' (map (\<lambda>x. if x = VNull \<or> x = VUndefined then [] else js_to_string x) xs)"
| "js_to_string (VObj ps) = ''[object Object]''"

text \<open>A property name that may be \<open>undefined\<close>, interpolated into a template literal.\<close>

definition tpl :: "string option \<Rightarrow> string" where
  "tpl s = (case s of None \<Rightarrow> ''undefined'' | Some t \<Rightarrow> t)"

definition hex_char :: "nat \<Rightarrow> char" where
  "hex_char d = (if d < 10 then char_of (48 + d) else char_of (55 + d))"

definition hex_char_lower :: "nat \<Rightarrow> char" where
  "hex_char_lower d = (if d < 10 then char_of (48 + d) else char_of (87 + d))"

text \<open>
  \<open>encodeURIComponent\<close>: letters, digits and \<open>- _ . ! ~ * ' ( )\<close> are kept, every
  other byte of the UTF-8 form becomes \<open>%XX\<close> with upper-case hexadecimal digits.
\<close>

definition uri_unreserved :: "char \<Rightarrow> bool" where
  "uri_unreserved c =
     (let n = of_char c :: nat in
      (65 \<le> n \<and> n \<le> 90) \<or> (97 \<le> n \<and> n \<le> 122) \<or> (48 \<le> n \<and> n \<le> 57) \<or>
      n \<in> {45, 95, 46, 33, 126, 42, 39, 40, 41})"

definition encode_char :: "char \<Rightarrow> string" where
  "encode_char c =
     (if uri_unreserved c then [c]
      else [CHR ''%'', hex_char ((of_char c :: nat) div 16), hex_char ((of_char c :: nat) mod 16)])"

definition encodeURIComponent :: "string \<Rightarrow> string" where
  "encodeURIComponent s = concat (map encode_char s)"

text \<open>\<open>String.prototype.toUpperCase\<close>, on the ASCII letters.\<close>

definition toUpperCase :: "string \<Rightarrow> string" where
  "toUpperCase s =
     map (\<lambda>c. let n = of_char c :: nat in if 97 \<le> n \<and> n \<le> 122 then char_of (n - 32) else c) s"

text \<open>
  \<open>String.prototype.replace\<close> with a string pattern: only the first occurrence is
  replaced, and in the replacement text \<open>$$\<close>, \<open>$&\<close>, \<open>$`\<close> and \<open>$'\<close> stand for a
  dollar sign, the match, the text before it and the text after it.
\<close>

fun find_split :: "string \<Rightarrow> string \<Rightarrow> (string \<times> string) option" where
  "find_split pat [] = (if pat = [] then Some ([], []) else None)"
| "find_split pat (c # cs) =
     (if take (length pat) (c # cs) = pat then Some ([], drop (length pat) (c # cs))
      else map_option (\<lambda>(b, a). (c # b, a)) (find_split pat cs))"

fun expand_replacement :: "string \<Rightarrow> string \<Rightarrow> string \<Rightarrow> string \<Rightarrow> string" where
  "expand_replacement m b a [] = []"
| "expand_replacement m b a [c] = [c]"
| "expand_replacement m b a (c # d # cs) =
     (if c = CHR ''$'' \<and> d = CHR ''$'' then CHR ''$'' # expand_replacement m b a cs
      else if c = CHR ''$'' \<and> d = CHR ''&'' then m @ expand_replacement m b a cs
      else if c = CHR ''$'' \<and> d = CHR 0x60 then b @ expand_replacement m b a cs
      else if c = CHR ''$'' \<and> d = CHR 0x27 then a @ expand_replacement m b a cs
      else c # expand_replacement m b a (d # cs))"

definition replace :: "string \<Rightarrow> string \<Rightarrow> string \<Rightarrow> string" where
  "replace s pat repl =
     (case find_split pat s of
        None \<Rightarrow> s
      | Some (b, a) \<Rightarrow> b @ expand_replacement pat b a repl @ a)"

text \<open>\<open>value.replace(/'/g, "''")\<close>: every single quote is doubled.\<close>

definition double_quotes :: "string \<Rightarrow> string" where
  "double_quotes s = concat (map (\<lambda>c. if c = CHR 0x27 then [CHR 0x27, CHR 0x27] else [c]) s)"

text \<open>
  \<open>JSON.stringify\<close> on the values of the model. A property whose value is
  \<open>undefined\<close> is left out of an object; inside an array \<open>undefined\<close> prints as
  \<open>null\<close>; a control character prints as its short escape or as \<open>\u00XX\<close>.
\<close>

definition json_escape_char :: "char \<Rightarrow> string" where
  "json_escape_char c =
     (let n = of_char c :: nat in
      if c = CHR 0x22 then [CHR 0x5C, CHR 0x22]
      else if c = CHR 0x5C then [CHR 0x5C, CHR 0x5C]
      else if n = 8 then [CHR 0x5C, CHR ''b'']
      else if n = 12 then [CHR 0x5C, CHR ''f'']
      else if n = 10 then [CHR 0x5C, CHR ''n'']
      else if n = 13 then [CHR 0x5C, CHR ''r'']
      else if n = 9 then [CHR 0x5C, CHR ''t'']
      else if n < 32 then
        [CHR 0x5C, CHR ''u'', CHR ''0'', CHR ''0'', hex_char_lower (n div 16), hex_char_lower (n mod 16)]
      else [c])"

definition json_quote :: "string \<Rightarrow> string" where
  "json_quote s = [CHR 0x22] @ concat (map json_escape_char s) @ [CHR 0x22]"

fun JSON_stringify :: "jsvalue \<Rightarrow> string" where
  "JSON_stringify VUndefined = ''null''"
| "JSON_stringify VNull = ''null''"
| "JSON_stringify (VBool b) = (if b then ''true'' else ''false'')"
| "JSON_stringify (VNum n) = show_int n"
| "JSON_stringify (VStr s) = json_quote s"
| "JSON_stringify (VDate isotext disp) = json_quote isotext"
| "JSON_stringify (VArr xs) = ''['' @ join '','' (map JSON_stringify xs) @ '']''"
| "JSON_stringify (VObj ps) =
     ''{'' @ join '',''
        (map (\<lambda>p. json_quote (fst p) @ '':'' @ JSON_stringify (snd p))
           (filter (\<lambda>p. snd p \<noteq> VUndefined) ps)) @ ''}''"

section \<open>The query model\<close>

text \<open>
  \<open>IQueryFilter\<close>: one object type for leaves and composites. The translators read
  \<open>field\<close>, \<open>operator\<close> and \<open>value\<close> by destructuring, so a property that is
  absent reads as \<open>undefined\<close> (\<open>None\<close> here, \<open>VUndefined\<close> for the value).
\<close>

datatype qfilter =
  QFilter (field: "string option") (operator: "string option") (fvalue: jsvalue)
    (logicalOperator: "string option") (children: "qfilter list option")

record qselect =
  fields_sel :: "string list option"
  exclude :: bool

record qorder =
  ofield :: string
  direction :: string

record qpagination =
  take_opt :: "int option"
  skip_opt :: "int option"

record query =
  filter_q :: "qfilter option"
  select_q :: "qselect option"
  orderBy :: "qorder list option"
  pagination :: "qpagination option"

text \<open>Truthiness of an optional number: present, and not zero.\<close>

definition truthy_num :: "int option \<Rightarrow> bool" where
  "truthy_num n = (case n of None \<Rightarrow> False | Some k \<Rightarrow> k \<noteq> 0)"

text \<open>\<open>a || d\<close> on an optional number.\<close>

definition or_default :: "int option \<Rightarrow> int \<Rightarrow> int" where
  "or_default n d = (case n of None \<Rightarrow> d | Some k \<Rightarrow> if k \<noteq> 0 then k else d)"

text \<open>\<open>Array.isArray(value) ? value : [value]\<close>.\<close>

definition as_array :: "jsvalue \<Rightarrow> jsvalue list" where
  "as_array v = (case v of VArr xs \<Rightarrow> xs | _ \<Rightarrow> [v])"

section \<open>The three filter translators\<close>

text \<open>
  \<open>SQLiteProvider.convertODataFilterToSQL(filter, params)\<close>: returns the SQL fragment
  and the parameter array after the pushes. The \<open>switch\<close> is on \<open>operator\<close> alone;
  \<open>logicalOperator\<close> and \<open>children\<close> are never read.
\<close>

definition convertODataFilterToSQL :: "qfilter option \<Rightarrow> jsvalue list \<Rightarrow> string \<times> jsvalue list" where
  "convertODataFilterToSQL flt params =
     (case flt of
        None \<Rightarrow> (''1=1'', params)
      | Some f \<Rightarrow>
          (let fld = tpl (field f); op = operator f; v = fvalue f in
           if op = Some ''eq'' then (fld @ '' = ?'', params @ [v])
           else if op = Some ''ne'' then (fld @ '' != ?'', params @ [v])
           else if op = Some ''gt'' then (fld @ '' > ?'', params @ [v])
           else if op = Some ''ge'' then (fld @ '' >= ?'', params @ [v])
           else if op = Some ''lt'' then (fld @ '' < ?'', params @ [v])
           else if op = Some ''le'' then (fld @ '' <= ?'', params @ [v])
           else if op = Some ''contains'' then
             (fld @ '' LIKE ?'', params @ [VStr (''%'' @ js_to_string v @ ''%'')])
           else if op = Some ''startswith'' then
             (fld @ '' LIKE ?'', params @ [VStr (js_to_string v @ ''%'')])
           else if op = Some ''endswith'' then
             (fld @ '' LIKE ?'', params @ [VStr (''%'' @ js_to_string v)])
           else if op = Some ''in'' then
             (fld @ '' IN ('' @ join '', '' (map (\<lambda>_. ''?'') (as_array v)) @ '')'',
              params @ as_array v)
           else if op = Some ''notin'' then
             (fld @ '' NOT IN ('' @ join '', '' (map (\<lambda>_. ''?'') (as_array v)) @ '')'',
              params @ as_array v)
           else (fld @ '' = ?'', params @ [v])))"

text \<open>\<open>MongoDBProvider.convertODataFilterToMongo(filter)\<close>: the filter object.\<close>

definition convertODataFilterToMongo :: "qfilter option \<Rightarrow> jsvalue" where
  "convertODataFilterToMongo flt =
     (case flt of
        None \<Rightarrow> VObj []
      | Some f \<Rightarrow>
          (let fld = tpl (field f); op = operator f; v = fvalue f in
           if op = Some ''eq'' then VObj [(fld, v)]
           else if op = Some ''ne'' then VObj [(fld, VObj [(''$ne'', v)])]
           else if op = Some ''gt'' then VObj [(fld, VObj [(''$gt'', v)])]
           else if op = Some ''ge'' then VObj [(fld, VObj [(''$gte'', v)])]
           else if op = Some ''lt'' then VObj [(fld, VObj [(''$lt'', v)])]
           else if op = Some ''le'' then VObj [(fld, VObj [(''$lte'', v)])]
           else if op = Some ''contains'' then
             VObj [(fld, VObj [(''$regex'', v), (''$options'', VStr ''i'')])]
           else if op = Some ''startswith'' then
             VObj [(fld, VObj [(''$regex'', VStr (''^'' @ js_to_string v)), (''$options'', VStr ''i'')])]
           else if op = Some ''endswith'' then
             VObj [(fld, VObj [(''$regex'', VStr (js_to_string v @ ''$'')), (''$options'', VStr ''i'')])]
           else if op = Some ''in'' then VObj [(fld, VObj [(''$in'', VArr (as_array v))])]
           else if op = Some ''notin'' then VObj [(fld, VObj [(''$nin'', VArr (as_array v))])]
           else VObj [(fld, v)]))"

text \<open>\<open>HTTPODataProvider.formatODataValue(value)\<close>.\<close>

definition formatODataValue :: "jsvalue \<Rightarrow> string" where
  "formatODataValue v =
     (case v of
        VNull \<Rightarrow> ''null''
      | VUndefined \<Rightarrow> ''null''
      | VStr s \<Rightarrow> [CHR 0x27] @ double_quotes s @ [CHR 0x27]
      | VNum n \<Rightarrow> show_int n
      | VBool b \<Rightarrow> (if b then ''true'' else ''false'')
      | VDate isotext disp \<Rightarrow> isotext
      | _ \<Rightarrow> [CHR 0x27] @ double_quotes (JSON_stringify v) @ [CHR 0x27])"

text \<open>
  \<open>HTTPODataProvider.convertFilterToOData(filter)\<close>. There is no \<open>notin\<close> case
  here: that operator reaches the \<open>default\<close> branch.
\<close>

definition convertFilterToOData :: "qfilter option \<Rightarrow> string" where
  "convertFilterToOData flt =
     (case flt of
        None \<Rightarrow> []
      | Some f \<Rightarrow>
          (let fld = tpl (field f); op = operator f; v = fvalue f in
           if op = Some ''eq'' then fld @ '' eq '' @ formatODataValue v
           else if op = Some ''ne'' then fld @ '' ne '' @ formatODataValue v
           else if op = Some ''gt'' then fld @ '' gt '' @ formatODataValue v
           else if op = Some ''ge'' then fld @ '' ge '' @ formatODataValue v
           else if op = Some ''lt'' then fld @ '' lt '' @ formatODataValue v
           else if op = Some ''le'' then fld @ '' le '' @ formatODataValue v
           else if op = Some ''contains'' then
             ''contains('' @ fld @ '', '' @ formatODataValue v @ '')''
           else if op = Some ''startswith'' then
             ''startswith('' @ fld @ '', '' @ formatODataValue v @ '')''
           else if op = Some ''endswith'' then
             ''endswith('' @ fld @ '', '' @ formatODataValue v @ '')''
           else if op = Some ''in'' then
             fld @ '' in ('' @ join '','' (map formatODataValue (as_array v)) @ '')''
           else fld @ '' eq '' @ formatODataValue v))"

text \<open>\<open>HTTPODataProvider.buildODataQueryString(query)\<close>.\<close>

definition buildODataQueryString :: "query \<Rightarrow> string" where
  "buildODataQueryString q =
     (let params0 =
            (if filter_q q \<noteq> None \<and> convertFilterToOData (filter_q q) \<noteq> []
             then [''$filter='' @ encodeURIComponent (convertFilterToOData (filter_q q))]
             else []);
          params1 =
            (case select_q q of
               None \<Rightarrow> params0
             | Some sel \<Rightarrow>
                 (case fields_sel sel of
                    None \<Rightarrow> params0
                  | Some fs \<Rightarrow> params0 @ [''$select='' @ encodeURIComponent (join '','' fs)]));
          params2 =
            (case orderBy q of
               None \<Rightarrow> params1
             | Some os \<Rightarrow>
                 params1 @
                 [''$orderby='' @
                  encodeURIComponent (join '','' (map (\<lambda>ord. ofield ord @ '' '' @ direction ord) os))]);
          params3 =
            (case pagination q of
               None \<Rightarrow> params2
             | Some pg \<Rightarrow>
                 params2 @
                 (if truthy_num (take_opt pg) then [''$top='' @ show_int (the (take_opt pg))] else []) @
                 (if truthy_num (skip_opt pg) then [''$skip='' @ show_int (the (skip_opt pg))] else []));
          params4 = params3 @ [''$count=true'']
      in if length params4 > 0 then ''?'' @ join ''&'' params4 else [])"

section \<open>Effects: thrown errors and the state around a provider\<close>

text \<open>
  A thrown JavaScript value is either an \<open>Error\<close> instance (message and stack text)
  or any other value. A method body is a function from the state before to either the
  thrown value or the returned one, together with the state after: what was mutated
  before a \<open>throw\<close> stays mutated.
\<close>

datatype js_error = Error string string | Thrown jsvalue

type_synonym ('a, 's) io = "'s \<Rightarrow> (js_error + 'a) \<times> 's"

definition io_return :: "'a \<Rightarrow> ('a, 's) io" where
  "io_return x = (\<lambda>s. (Inr x, s))"

definition io_throw :: "js_error \<Rightarrow> ('a, 's) io" where
  "io_throw e = (\<lambda>s. (Inl e, s))"

definition io_bind :: "('a, 's) io \<Rightarrow> ('a \<Rightarrow> ('b, 's) io) \<Rightarrow> ('b, 's) io" where
  "io_bind m f = (\<lambda>s. case m s of (Inl e, s') \<Rightarrow> (Inl e, s') | (Inr x, s') \<Rightarrow> f x s')"

definition io_get :: "('s \<Rightarrow> 'a) \<Rightarrow> ('a, 's) io" where
  "io_get f = (\<lambda>s. (Inr (f s), s))"

definition io_modify :: "('s \<Rightarrow> 's) \<Rightarrow> (unit, 's) io" where
  "io_modify f = (\<lambda>s. (Inr (), f s))"

text \<open>\<open>error instanceof Error ? error.message : 'Unknown error'\<close>.\<close>

definition error_message :: "js_error \<Rightarrow> string" where
  "error_message e = (case e of Error m st \<Rightarrow> m | Thrown v \<Rightarrow> ''Unknown error'')"

text \<open>\<open>error instanceof Error ? { stack: error.stack } : {}\<close>.\<close>

definition error_details :: "js_error \<Rightarrow> jsvalue" where
  "error_details e = (case e of Error m st \<Rightarrow> VObj [(''stack'', VStr st)] | Thrown v \<Rightarrow> VObj [])"

text \<open>Truthiness, \<open>a || b\<close>, and the two ways the code reads a property.\<close>

definition js_truthy :: "jsvalue \<Rightarrow> bool" where
  "js_truthy v =
     (case v of
        VUndefined \<Rightarrow> False
      | VNull \<Rightarrow> False
      | VBool b \<Rightarrow> b
      | VNum n \<Rightarrow> n \<noteq> 0
      | VStr s \<Rightarrow> s \<noteq> []
      | _ \<Rightarrow> True)"

definition js_or :: "jsvalue \<Rightarrow> jsvalue \<Rightarrow> jsvalue" where
  "js_or a b = (if js_truthy a then a else b)"

definition opt_prop :: "string \<Rightarrow> jsvalue \<Rightarrow> jsvalue" where
  "opt_prop name v =
     (case v of
        VObj ps \<Rightarrow> (case map_of ps name of Some x \<Rightarrow> x | None \<Rightarrow> VUndefined)
      | _ \<Rightarrow> VUndefined)"

text \<open>
  \<open>v.name\<close> without optional chaining: a \<open>TypeError\<close> on \<open>undefined\<close> and
  \<open>null\<close> (the message is the engine's; its stack is left empty).
\<close>

definition get_prop :: "string \<Rightarrow> jsvalue \<Rightarrow> (jsvalue, 's) io" where
  "get_prop name v =
     (if v = VUndefined \<or> v = VNull
      then io_throw (Error (''Cannot read properties of '' @ js_to_string v @
                            '' (reading '' @ [CHR 0x27] @ name @ [CHR 0x27] @ '')'') [])
      else io_return (opt_prop name v))"

text \<open>
  The fields the three providers share, and \<open>world\<close>: everything outside the
  provider object that its methods read or change (the database behind the handle, the
  remote service, the clock).
\<close>

record 'w provider =
  totalQueries :: nat
  queryTimes :: "int list"
  world :: 'w

definition on_world :: "('w \<Rightarrow> (js_error + 'a) \<times> 'w) \<Rightarrow> ('a, 'w provider) io" where
  "on_world f = (\<lambda>p. case f (world p) of (r, w') \<Rightarrow> (r, p\<lparr>world := w'\<rparr>))"

text \<open>\<open>this.totalQueries++\<close> and \<open>this.queryTimes.push(t)\<close>.\<close>

definition count_query :: "(unit, 'w provider) io" where
  "count_query = io_modify (\<lambda>p. p\<lparr>totalQueries := totalQueries p + 1\<rparr>)"

definition push_time :: "int \<Rightarrow> (unit, 'w provider) io" where
  "push_time t = io_modify (\<lambda>p. p\<lparr>queryTimes := queryTimes p @ [t]\<rparr>)"

section \<open>Results and user-facing errors\<close>

text \<open>\<open>IUserFriendlyError\<close>: the optional properties a provider may set.\<close>

record user_error =
  code :: string
  message :: string
  details :: "jsvalue option"
  suggestion :: "string option"
  severity :: string
  actionable :: bool

record query_metadata =
  count :: jsvalue
  executionTime :: int
  cacheStatus :: string

record query_result =
  data :: jsvalue
  success :: bool
  errors :: "user_error list option"
  metadata :: query_metadata

text \<open>
  The results of \<open>create\<close>, \<open>read\<close>, \<open>update\<close> and \<open>delete\<close>: the properties
  each of them sets, \<open>None\<close> for a property the object literal does not have.
\<close>

record crud_result =
  cdata :: "jsvalue option"
  csuccess :: bool
  cid :: "jsvalue option"
  cerrors :: "user_error list option"
  cmetadata :: "jsvalue option"

text \<open>The error object every \<open>catch\<close> block of the providers' data methods builds.\<close>

definition caught :: "string \<Rightarrow> string \<Rightarrow> js_error \<Rightarrow> user_error" where
  "caught c prefix e =
     \<lparr>code = c, message = prefix @ error_message e, details = Some (error_details e),
      suggestion = None, severity = ''error'', actionable = True\<rparr>"

definition query_failed :: "js_error \<Rightarrow> query_result" where
  "query_failed e =
     \<lparr>data = VArr [], success = False,
      errors = Some [caught ''QUERY_EXECUTION_FAILED'' ''Query execution failed: '' e],
      metadata = \<lparr>count = VNum 0, executionTime = 0, cacheStatus = ''miss''\<rparr>\<rparr>"


text \<open>\<open>try { body } catch (error) { return handler(error) }\<close> around a whole method.\<close>

definition try_catch :: "('a, 's) io \<Rightarrow> (js_error \<Rightarrow> 'a) \<Rightarrow> 's \<Rightarrow> 'a \<times> 's" where
  "try_catch body handler s =
     (case body s of (Inr r, s') \<Rightarrow> (r, s') | (Inl e, s') \<Rightarrow> (handler e, s'))"

section \<open>The SQLite provider\<close>

text \<open>
  The better-sqlite3 handle is outside the repository: \<open>stmt_all sql params\<close> stands
  for \<open>this.database.prepare(sql).all(...params)\<close>, \<open>stmt_get\<close> for \<open>.get(...)\<close>,
  \<open>stmt_run\<close> for \<open>.run(...)\<close>; each may throw (also when the handle is missing) and
  may change the world. \<open>sq_now\<close> is \<open>Date.now()\<close>.
\<close>

record 'w sqlite_driver =
  sq_now :: "'w \<Rightarrow> int"
  stmt_all :: "string \<Rightarrow> jsvalue list \<Rightarrow> 'w \<Rightarrow> (js_error + jsvalue list) \<times> 'w"
  stmt_get :: "string \<Rightarrow> jsvalue list \<Rightarrow> 'w \<Rightarrow> (js_error + jsvalue) \<times> 'w"
  stmt_run :: "string \<Rightarrow> jsvalue list \<Rightarrow> 'w \<Rightarrow> (js_error + jsvalue) \<times> 'w"

text \<open>
  The statement \<open>SQLiteProvider.executeQuery\<close> prepares and the parameters it binds:
  the method's lines from \<open>let sql = ...\<close> to the end of the pagination block.
\<close>

definition sqlite_query_sql :: "string \<Rightarrow> query \<Rightarrow> string \<times> jsvalue list" where
  "sqlite_query_sql entityName q =
     (let sql0 = ''SELECT * FROM '' @ entityName;
          (sql1, params) =
            (case filter_q q of
               None \<Rightarrow> (sql0, [])
             | Some f \<Rightarrow>
                 (case convertODataFilterToSQL (Some f) [] of
                    (whereClause, ps) \<Rightarrow> (sql0 @ '' WHERE '' @ whereClause, ps)));
          sql2 =
            (case select_q q of
               None \<Rightarrow> sql1
             | Some sel \<Rightarrow>
                 (case fields_sel sel of
                    None \<Rightarrow> sql1
                  | Some fs \<Rightarrow> replace sql1 ''*'' (join '', '' fs)));
          sql3 =
            (case orderBy q of
               None \<Rightarrow> sql2
             | Some os \<Rightarrow>
                 sql2 @ '' ORDER BY '' @
                 join '', '' (map (\<lambda>ord. ofield ord @ '' '' @ toUpperCase (direction ord)) os));
          sql4 =
            (case pagination q of
               None \<Rightarrow> sql3
             | Some pg \<Rightarrow>
                 sql3 @ '' LIMIT '' @ show_int (or_default (take_opt pg) 50) @
                 (if truthy_num (skip_opt pg) then '' OFFSET '' @ show_int (the (skip_opt pg)) else []))
      in (sql4, params))"

definition sqlite_executeQuery_body ::
  "'w sqlite_driver \<Rightarrow> string \<Rightarrow> query \<Rightarrow> (query_result, 'w provider) io" where
  "sqlite_executeQuery_body drv entityName q =
     io_bind count_query (\<lambda>_.
     io_bind (io_get (\<lambda>p. sq_now drv (world p))) (\<lambda>startTime.
     io_bind (on_world (stmt_all drv (fst (sqlite_query_sql entityName q))
                                     (snd (sqlite_query_sql entityName q)))) (\<lambda>rows.
     io_bind (on_world (stmt_get drv (''SELECT COUNT(*) as count FROM '' @ entityName) [])) (\<lambda>row.
     io_bind (get_prop ''count'' row) (\<lambda>cnt.
     io_bind (io_get (\<lambda>p. sq_now drv (world p))) (\<lambda>endTime.
     io_bind (push_time (endTime - startTime)) (\<lambda>_.
     io_return
       \<lparr>data = VArr rows, success = True, errors = None,
        metadata = \<lparr>count = cnt, executionTime = endTime - startTime,
                    cacheStatus = ''miss''\<rparr>\<rparr>)))))))"

definition sqlite_executeQuery ::
  "'w sqlite_driver \<Rightarrow> string \<Rightarrow> query \<Rightarrow> 'w provider \<Rightarrow> query_result \<times> 'w provider" where
  "sqlite_executeQuery drv entityName q =
     try_catch (sqlite_executeQuery_body drv entityName q) query_failed"










section \<open>The MongoDB provider\<close>

text \<open>
  A cursor, as \<open>collection.find(filter, { projection })\<close> creates it and
  \<open>sort\<close>, \<open>skip\<close> and \<open>limit\<close> configure it, before \<open>toArray()\<close> runs it.
\<close>

record mongo_cursor =
  cquery :: jsvalue
  cprojection :: "(string \<times> jsvalue) list"
  csort :: "(string \<times> jsvalue) list option"
  cskip :: "int option"
  climit :: "int option"

text \<open>
  The MongoDB driver is outside the repository. \<open>get_collection name\<close> stands for
  \<open>this.database.collection(name)\<close> (which throws when there is no database handle);
  the other operations are the collection's, given the collection name.
\<close>

record 'w mongo_driver =
  mg_now :: "'w \<Rightarrow> int"
  mg_new_date :: "'w \<Rightarrow> jsvalue"
  get_collection :: "string \<Rightarrow> 'w \<Rightarrow> (js_error + unit) \<times> 'w"
  toArray :: "string \<Rightarrow> mongo_cursor \<Rightarrow> 'w \<Rightarrow> (js_error + jsvalue list) \<times> 'w"
  countDocuments :: "string \<Rightarrow> jsvalue \<Rightarrow> 'w \<Rightarrow> (js_error + jsvalue) \<times> 'w"
  insertOne :: "string \<Rightarrow> jsvalue \<Rightarrow> 'w \<Rightarrow> (js_error + jsvalue) \<times> 'w"
  findOne :: "string \<Rightarrow> jsvalue \<Rightarrow> 'w \<Rightarrow> (js_error + jsvalue) \<times> 'w"
  findOneAndUpdate :: "string \<Rightarrow> jsvalue \<Rightarrow> jsvalue \<Rightarrow> 'w \<Rightarrow> (js_error + jsvalue) \<times> 'w"
  deleteOne :: "string \<Rightarrow> jsvalue \<Rightarrow> 'w \<Rightarrow> (js_error + jsvalue) \<times> 'w"

text \<open>\<open>fields.forEach(field => { projection[field] = 1 })\<close> on an empty object.\<close>

definition projection_of :: "string list \<Rightarrow> (string \<times> jsvalue) list" where
  "projection_of fs = foldl (\<lambda>pr f. AList.update f (VNum 1) pr) [] fs"

text \<open>
  The cursor \<open>MongoDBProvider.executeQuery\<close> runs: the method's lines from the filter
  conversion to the \<open>cursor.limit\<close> call.
\<close>

definition mongo_query_cursor :: "query \<Rightarrow> mongo_cursor" where
  "mongo_query_cursor q =
     (let mongoQuery =
            (case filter_q q of None \<Rightarrow> VObj [] | Some f \<Rightarrow> convertODataFilterToMongo (Some f));
          projection =
            (case select_q q of
               None \<Rightarrow> []
             | Some sel \<Rightarrow>
                 (case fields_sel sel of
                    None \<Rightarrow> []
                  | Some fs \<Rightarrow>
                      (if \<not> exclude sel then AList.update ''_id'' (VNum 0) (projection_of fs)
                       else projection_of fs)));
          sort =
            (case orderBy q of
               None \<Rightarrow> []
             | Some os \<Rightarrow>
                 foldl (\<lambda>st ord. AList.update (ofield ord)
                                   (VNum (if direction ord = ''asc'' then 1 else - 1)) st) [] os);
          limit = or_default (case pagination q of None \<Rightarrow> None | Some pg \<Rightarrow> take_opt pg) 50;
          skip = or_default (case pagination q of None \<Rightarrow> None | Some pg \<Rightarrow> skip_opt pg) 0
      in \<lparr>cquery = mongoQuery, cprojection = projection,
          csort = (if length sort > 0 then Some sort else None),
          cskip = (if skip > 0 then Some skip else None),
          climit = (if limit > 0 then Some limit else None)\<rparr>)"

definition mongo_executeQuery_body ::
  "'w mongo_driver \<Rightarrow> string \<Rightarrow> query \<Rightarrow> (query_result, 'w provider) io" where
  "mongo_executeQuery_body drv entityName q =
     io_bind count_query (\<lambda>_.
     io_bind (io_get (\<lambda>p. mg_now drv (world p))) (\<lambda>startTime.
     io_bind (on_world (get_collection drv entityName)) (\<lambda>_.
     io_bind (on_world (toArray drv entityName (mongo_query_cursor q))) (\<lambda>docs.
     io_bind (on_world (countDocuments drv entityName (cquery (mongo_query_cursor q)))) (\<lambda>cnt.
     io_bind (io_get (\<lambda>p. mg_now drv (world p))) (\<lambda>endTime.
     io_bind (push_time (endTime - startTime)) (\<lambda>_.
     io_return
       \<lparr>data = VArr docs, success = True, errors = None,
        metadata = \<lparr>count = cnt, executionTime = endTime - startTime,
                    cacheStatus = ''miss''\<rparr>\<rparr>)))))))"

definition mongo_executeQuery ::
  "'w mongo_driver \<Rightarrow> string \<Rightarrow> query \<Rightarrow> 'w provider \<Rightarrow> query_result \<times> 'w provider" where
  "mongo_executeQuery drv entityName q =
     try_catch (mongo_executeQuery_body drv entityName q) query_failed"











section \<open>The HTTP OData provider\<close>

text \<open>
  \<open>makeRequest\<close> wraps \<open>fetch\<close> in its own \<open>try/catch\<close> and always returns a
  response object; \<open>executeQuery\<close> reads its \<open>success\<close> and \<open>data\<close> properties. The
  request itself is outside the repository.
\<close>

record http_response =
  rsuccess :: bool
  rdata :: jsvalue

record 'w http_driver =
  ht_now :: "'w \<Rightarrow> int"
  makeRequest :: "string \<Rightarrow> 'w \<Rightarrow> http_response \<times> 'w"

definition http_executeQuery_body ::
  "'w http_driver \<Rightarrow> string \<Rightarrow> string \<Rightarrow> query \<Rightarrow> (query_result, 'w provider) io" where
  "http_executeQuery_body drv baseUrl entityName q =
     io_bind count_query (\<lambda>_.
     io_bind (io_get (\<lambda>p. ht_now drv (world p))) (\<lambda>startTime.
     io_bind (on_world (\<lambda>w. case makeRequest drv
                                  (baseUrl @ ''/'' @ entityName @ buildODataQueryString q) w of
                               (r, w') \<Rightarrow> (Inr r, w'))) (\<lambda>response.
     if \<not> rsuccess response then io_throw (Error ''Query execution failed'' [])
     else
     io_bind (io_get (\<lambda>p. ht_now drv (world p))) (\<lambda>endTime.
     io_bind (push_time (endTime - startTime)) (\<lambda>_.
     io_return
       \<lparr>data = js_or (opt_prop ''value'' (rdata response)) (VArr []), success = True,
        errors = None,
        metadata = \<lparr>count = js_or (opt_prop ''@odata.count'' (rdata response)) (VNum 0),
                    executionTime = endTime - startTime, cacheStatus = ''miss''\<rparr>\<rparr>)))))"

definition http_executeQuery ::
  "'w http_driver \<Rightarrow> string \<Rightarrow> string \<Rightarrow> query \<Rightarrow> 'w provider \<Rightarrow> query_result \<times> 'w provider" where
  "http_executeQuery drv baseUrl entityName q =
     try_catch (http_executeQuery_body drv baseUrl entityName q) query_failed"

section \<open>The connection pool\<close>

text \<open>\<open>IConnectionConfig\<close>: \<open>type\<close> and the optional properties.\<close>

record connection_config =
  ctype :: string
  connectionString :: "string option"
  databaseName :: "string option"
  filePath :: "string option"
  baseUrl :: "string option"
  headers :: "(string \<times> string) list option"
  poolSize :: "int option"
  minPoolSize :: "int option"
  maxIdleTime :: "int option"
  timeout :: "int option"
  verbose :: "bool option"
  fileMustExist :: "bool option"

text \<open>
  A pooled connection: a handle the MongoDB or the SQLite driver returned, or the plain
  object \<open>{baseUrl, headers, timeout}\<close> the pool itself builds for HTTP OData.
\<close>

datatype connection =
    MongoDb nat
  | SqliteDatabase nat
  | HttpConnection string "(string \<times> string) list" int

record mongo_options =
  maxPoolSize :: int
  minPoolSize_opt :: int
  maxIdleTimeMS :: int
  serverSelectionTimeoutMS :: int
  connectTimeoutMS :: int
  socketTimeoutMS :: int

record sqlite_options =
  opt_verbose :: bool
  opt_fileMustExist :: bool
  opt_timeout :: int

text \<open>
  What the pool asks of the world outside the repository: the dynamic imports, the two
  drivers' connect and close operations, the three health probes and the clock.
  \<open>client_close c\<close> stands for \<open>connection.client?.close()\<close> and \<open>db_close c\<close>
  for \<open>connection.close()\<close>; either call may throw.
\<close>

record 'w pool_driver =
  import_module :: "string \<Rightarrow> 'w \<Rightarrow> (js_error + unit) \<times> 'w"
  mongo_connect :: "string \<Rightarrow> mongo_options \<Rightarrow> string option \<Rightarrow> 'w \<Rightarrow> (js_error + connection) \<times> 'w"
  sqlite_open :: "string \<Rightarrow> sqlite_options \<Rightarrow> 'w \<Rightarrow> (js_error + connection) \<times> 'w"
  admin_ping :: "connection \<Rightarrow> 'w \<Rightarrow> (js_error + unit) \<times> 'w"
  open_flag :: "connection \<Rightarrow> 'w \<Rightarrow> bool"
  fetch_head :: "connection \<Rightarrow> 'w \<Rightarrow> (js_error + bool) \<times> 'w"
  client_close :: "connection \<Rightarrow> 'w \<Rightarrow> (js_error + unit) \<times> 'w"
  db_close :: "connection \<Rightarrow> 'w \<Rightarrow> (js_error + unit) \<times> 'w"
  pl_now :: "'w \<Rightarrow> int"

text \<open>What an interval of the event loop runs, and what one call of the pool leaves
  observable: each connector invocation, each failed attempt (the \<open>console.warn\<close> line,
  with the attempt number and the error), each delay slept, each success (the
  \<open>console.log\<close> line with the attempt number).\<close>

datatype timer = HealthCheck string connection_config | Sweep

datatype event =
    Connect connection_config
  | Failed nat js_error
  | Sleep nat
  | Established nat

text \<open>
  The pool object (its four maps, in insertion order, and its three settings) together
  with the runtime around it: the active intervals, the next interval handle, the events
  so far and the backends. One call runs from start to end here; calls interleaved at an
  \<open>await\<close> are outside the model.
\<close>

record 'w pool =
  connections :: "(string \<times> connection) list"
  connectionConfigs :: "(string \<times> connection_config) list"
  healthChecks :: "(string \<times> nat) list"
  retryAttempts :: "(string \<times> nat) list"
  maxRetries :: nat
  retryDelay :: nat
  healthCheckInterval :: nat
  timers :: "(nat \<times> timer) list"
  next_timer :: nat
  events :: "event list"
  backend :: 'w

definition setInterval :: "timer \<Rightarrow> 'w pool \<Rightarrow> nat \<times> 'w pool" where
  "setInterval t s =
     (next_timer s, s\<lparr>timers := timers s @ [(next_timer s, t)], next_timer := next_timer s + 1\<rparr>)"

definition clearInterval :: "nat \<Rightarrow> 'w pool \<Rightarrow> 'w pool" where
  "clearInterval h s = s\<lparr>timers := AList.delete h (timers s)\<rparr>"

text \<open>\<open>new ConnectionPool()\<close>: the field initialisers, then \<open>startHealthChecks()\<close>,
  whose interval handle is not kept.\<close>

definition startHealthChecks :: "'w pool \<Rightarrow> 'w pool" where
  "startHealthChecks s = snd (setInterval Sweep s)"

definition new_pool :: "nat \<Rightarrow> 'w \<Rightarrow> 'w pool" where
  "new_pool first_handle w =
     startHealthChecks
       \<lparr>connections = [], connectionConfigs = [], healthChecks = [], retryAttempts = [],
        maxRetries = 3, retryDelay = 1000, healthCheckInterval = 30000,
        timers = [], next_timer = first_handle, events = [], backend = w\<rparr>"

definition on_backend :: "('w \<Rightarrow> (js_error + 'a) \<times> 'w) \<Rightarrow> ('a, 'w pool) io" where
  "on_backend f = (\<lambda>s. case f (backend s) of (r, w') \<Rightarrow> (r, s\<lparr>backend := w'\<rparr>))"

text \<open>\<open>n || d\<close> and \<open>b || false\<close> on optional settings.\<close>

definition bool_or_false :: "bool option \<Rightarrow> bool" where
  "bool_or_false b = (case b of None \<Rightarrow> False | Some x \<Rightarrow> x)"

text \<open>\<open>!s\<close> on an optional string: absent or empty.\<close>

definition missing :: "string option \<Rightarrow> bool" where
  "missing s = (case s of None \<Rightarrow> True | Some t \<Rightarrow> t = [])"

definition createMongoDBConnection :: "'w pool_driver \<Rightarrow> connection_config \<Rightarrow> 'w \<Rightarrow> (js_error + connection) \<times> 'w" where
  "createMongoDBConnection drv config =
     io_bind (import_module drv ''mongodb'') (\<lambda>_.
     if missing (connectionString config)
     then io_throw (Error ''MongoDB connection string is required'' [])
     else mongo_connect drv (the (connectionString config))
            \<lparr>maxPoolSize = or_default (poolSize config) 10,
             minPoolSize_opt = or_default (minPoolSize config) 1,
             maxIdleTimeMS = or_default (maxIdleTime config) 30000,
             serverSelectionTimeoutMS = or_default (timeout config) 5000,
             connectTimeoutMS = or_default (timeout config) 5000,
             socketTimeoutMS = or_default (timeout config) 5000\<rparr>
            (databaseName config))"

definition createSQLiteConnection :: "'w pool_driver \<Rightarrow> connection_config \<Rightarrow> 'w \<Rightarrow> (js_error + connection) \<times> 'w" where
  "createSQLiteConnection drv config =
     io_bind (import_module drv ''better-sqlite3'') (\<lambda>_.
     if missing (filePath config)
     then io_throw (Error ''SQLite file path is required'' [])
     else sqlite_open drv (the (filePath config))
            \<lparr>opt_verbose = bool_or_false (verbose config),
             opt_fileMustExist = bool_or_false (fileMustExist config),
             opt_timeout = or_default (timeout config) 5000\<rparr>)"

definition createHTTPODataConnection :: "connection_config \<Rightarrow> 'w \<Rightarrow> (js_error + connection) \<times> 'w" where
  "createHTTPODataConnection config =
     (if missing (baseUrl config)
      then io_throw (Error ''HTTP OData base URL is required'' [])
      else io_return (HttpConnection (the (baseUrl config))
                        (case headers config of None \<Rightarrow> [] | Some h \<Rightarrow> h)
                        (or_default (timeout config) 5000)))"

text \<open>\<open>createConnection(config)\<close>, the connector: each call is one \<open>Connect\<close> event.\<close>

definition connect_backend :: "'w pool_driver \<Rightarrow> connection_config \<Rightarrow> 'w \<Rightarrow> (js_error + connection) \<times> 'w" where
  "connect_backend drv config =
     (if ctype config = ''mongodb'' then createMongoDBConnection drv config
      else if ctype config = ''sqlite'' then createSQLiteConnection drv config
      else if ctype config = ''http-odata'' then createHTTPODataConnection config
      else io_throw (Error (''Unsupported connection type: '' @ ctype config) []))"

definition createConnection :: "'w pool_driver \<Rightarrow> connection_config \<Rightarrow> (connection, 'w pool) io" where
  "createConnection drv config =
     (\<lambda>s. on_backend (connect_backend drv config) (s\<lparr>events := events s @ [Connect config]\<rparr>))"

text \<open>\<open>isConnectionHealthy(connection, config)\<close>: any throw inside is \<open>false\<close>.\<close>

definition probe_backend :: "'w pool_driver \<Rightarrow> connection \<Rightarrow> connection_config \<Rightarrow> 'w \<Rightarrow> bool \<times> 'w" where
  "probe_backend drv c config w =
     (if ctype config = ''mongodb'' then
        (case admin_ping drv c w of (Inr _, w') \<Rightarrow> (True, w') | (Inl e, w') \<Rightarrow> (False, w'))
      else if ctype config = ''sqlite'' then (open_flag drv c w, w)
      else if ctype config = ''http-odata'' then
        (case fetch_head drv c w of (Inr ok, w') \<Rightarrow> (ok, w') | (Inl e, w') \<Rightarrow> (False, w'))
      else (False, w))"

definition isConnectionHealthy :: "'w pool_driver \<Rightarrow> connection \<Rightarrow> connection_config \<Rightarrow> 'w pool \<Rightarrow> bool \<times> 'w pool" where
  "isConnectionHealthy drv c config s =
     (case probe_backend drv c config (backend s) of (ok, w') \<Rightarrow> (ok, s\<lparr>backend := w'\<rparr>))"

definition startConnectionHealthCheck :: "string \<Rightarrow> connection_config \<Rightarrow> 'w pool \<Rightarrow> 'w pool" where
  "startConnectionHealthCheck connectionId config s =
     (let s1 = (case map_of (healthChecks s) connectionId of
                  Some h \<Rightarrow> clearInterval h s
                | None \<Rightarrow> s)
      in case setInterval (HealthCheck connectionId config) s1 of
           (interval, s2) \<Rightarrow> s2\<lparr>healthChecks := AList.update connectionId interval (healthChecks s2)\<rparr>)"

text \<open>\<open>sleep(ms)\<close>: the call waits; the delay is recorded.\<close>

definition sleep :: "nat \<Rightarrow> 'w pool \<Rightarrow> 'w pool" where
  "sleep ms s = s\<lparr>events := events s @ [Sleep ms]\<rparr>"

text \<open>\<open>lastError?.message\<close> inside the template literal of the final error.\<close>

definition last_error_text :: "js_error option \<Rightarrow> string" where
  "last_error_text e =
     (case e of
        None \<Rightarrow> ''undefined''
      | Some (Error m st) \<Rightarrow> m
      | Some (Thrown v) \<Rightarrow> js_to_string (opt_prop ''message'' v))"

definition exhausted_error :: "string \<Rightarrow> nat \<Rightarrow> js_error option \<Rightarrow> js_error" where
  "exhausted_error connectionId maxAttempts lastError =
     Error (''Failed to establish connection '' @ connectionId @ '' after '' @
            show_nat maxAttempts @ '' attempts: '' @ last_error_text lastError) []"

text \<open>
  The \<open>for\<close> loop of \<open>createConnectionWithRetry\<close>, from \<open>attempt\<close> on, and the
  \<open>throw\<close> after it.
\<close>

function retry_loop ::
  "'w pool_driver \<Rightarrow> string \<Rightarrow> connection_config \<Rightarrow> nat \<Rightarrow> nat \<Rightarrow> js_error option \<Rightarrow>
   'w pool \<Rightarrow> (js_error + connection) \<times> 'w pool" where
  "retry_loop drv connectionId config maxAttempts attempt lastError s =
     (if attempt \<le> maxAttempts then
        (case createConnection drv config s of
           (Inr c, s1) \<Rightarrow>
             (Inr c,
              (startConnectionHealthCheck connectionId config
                 (s1\<lparr>connections := AList.update connectionId c (connections s1),
                     connectionConfigs := AList.update connectionId config (connectionConfigs s1),
                     retryAttempts := AList.update connectionId 0 (retryAttempts s1)\<rparr>))
              \<lparr>events := events s1 @ [Established attempt]\<rparr>)
         | (Inl err, s1) \<Rightarrow>
             (let currentRetries =
                    (case map_of (retryAttempts s1) connectionId of None \<Rightarrow> 0 | Some n \<Rightarrow> n);
                  s2 = s1\<lparr>retryAttempts :=
                            AList.update connectionId (currentRetries + 1) (retryAttempts s1),
                          events := events s1 @ [Failed attempt err]\<rparr>;
                  s3 = (if attempt < maxAttempts
                        then sleep (retryDelay s2 * 2 ^ (attempt - 1)) s2 else s2)
              in retry_loop drv connectionId config maxAttempts (attempt + 1) (Some err) s3))
      else (Inl (exhausted_error connectionId maxAttempts lastError), s))"
  by pat_completeness auto
termination
  by (relation "measure (\<lambda>(drv, cid, config, maxAttempts, attempt, lastError, s). maxAttempts + 1 - attempt)") auto

declare retry_loop.simps [simp del]

definition createConnectionWithRetry ::
  "'w pool_driver \<Rightarrow> string \<Rightarrow> connection_config \<Rightarrow> (connection, 'w pool) io" where
  "createConnectionWithRetry drv connectionId config s =
     retry_loop drv connectionId config (maxRetries s + 1) 1 None s"

definition getConnection ::
  "'w pool_driver \<Rightarrow> string \<Rightarrow> connection_config \<Rightarrow> (connection, 'w pool) io" where
  "getConnection drv connectionId config s =
     (case map_of (connections s) connectionId of
        Some c \<Rightarrow>
          (case isConnectionHealthy drv c config s of
             (True, s1) \<Rightarrow> (Inr c, s1)
           | (False, s1) \<Rightarrow> createConnectionWithRetry drv connectionId config s1)
      | None \<Rightarrow> createConnectionWithRetry drv connectionId config s)"

text \<open>
  \<open>removeConnection(connectionId)\<close>. The close call is not inside a \<open>try\<close>: when
  it throws, the method throws, before any of the maps is changed.
\<close>

definition removeConnection :: "'w pool_driver \<Rightarrow> string \<Rightarrow> (unit, 'w pool) io" where
  "removeConnection drv connectionId s =
     io_bind
       (case map_of (connections s) connectionId of
          None \<Rightarrow> io_return ()
        | Some c \<Rightarrow>
            (case map_of (connectionConfigs s) connectionId of
               None \<Rightarrow> io_return ()
             | Some config \<Rightarrow>
                 (if ctype config = ''mongodb'' then on_backend (client_close drv c)
                  else if ctype config = ''sqlite'' then on_backend (db_close drv c)
                  else io_return ())))
       (\<lambda>_ s1.
          (let s2 = s1\<lparr>connections := AList.delete connectionId (connections s1),
                      connectionConfigs := AList.delete connectionId (connectionConfigs s1),
                      retryAttempts := AList.delete connectionId (retryAttempts s1)\<rparr>
           in (Inr (),
               (case map_of (healthChecks s2) connectionId of
                  Some h \<Rightarrow>
                    (clearInterval h s2)\<lparr>healthChecks := AList.delete connectionId (healthChecks s2)\<rparr>
                | None \<Rightarrow> s2))))
       s"

text \<open>\<open>IConnectionStats\<close>, the two dates as clock readings.\<close>

record connection_stats =
  connected :: bool
  uptime :: int
  activeConnections :: nat
  totalQueries_stats :: nat
  averageQueryTime :: nat
  lastConnectionAttempt :: int
  lastSuccessfulConnection :: int

text \<open>
  The locals of \<open>getConnectionStats\<close> while its \<open>forEach\<close> runs. A probe is started
  for every connection that has a config, and its \<open>then\<close> callback (the only place
  that increments \<open>healthyConnections\<close>) is queued: it runs after the method has
  returned. \<open>probes\<close> lists the callbacks queued so far.
\<close>

record stats_locals =
  healthyConnections :: nat
  totalRetries :: nat
  probes :: "(connection \<times> connection_config) list"

definition stats_step :: "'w pool \<Rightarrow> stats_locals \<Rightarrow> string \<times> connection \<Rightarrow> stats_locals" where
  "stats_step s l entry =
     (let l1 = (case map_of (connectionConfigs s) (fst entry) of
                  Some config \<Rightarrow> l\<lparr>probes := probes l @ [(snd entry, config)]\<rparr>
                | None \<Rightarrow> l)
      in l1\<lparr>totalRetries := totalRetries l1 +
               (case map_of (retryAttempts s) (fst entry) of None \<Rightarrow> 0 | Some n \<Rightarrow> n)\<rparr>)"

definition stats_loop :: "'w pool \<Rightarrow> stats_locals" where
  "stats_loop s =
     foldl (stats_step s) \<lparr>healthyConnections = 0, totalRetries = 0, probes = []\<rparr> (connections s)"

definition getConnectionStats :: "'w pool_driver \<Rightarrow> 'w pool \<Rightarrow> connection_stats" where
  "getConnectionStats drv s =
     (let totalConnections = length (connections s);
          l = stats_loop s
      in \<lparr>connected = (totalConnections > 0),
          uptime = pl_now drv (backend s),
          activeConnections = healthyConnections l,
          totalQueries_stats = 0,
          averageQueryTime = 0,
          lastConnectionAttempt = pl_now drv (backend s),
          lastSuccessfulConnection = pl_now drv (backend s)\<rparr>)"

text \<open>
  The value of the local \<open>healthyConnections\<close> once the queued callbacks have run: one
  increment for each probe that answers healthy. The object returned earlier is not
  touched by them.
\<close>

fun run_probes :: "'w pool_driver \<Rightarrow> (connection \<times> connection_config) list \<Rightarrow> nat \<Rightarrow> 'w \<Rightarrow> nat" where
  "run_probes drv [] n w = n"
| "run_probes drv (pc # pcs) n w =
     (case probe_backend drv (fst pc) (snd pc) w of
        (ok, w') \<Rightarrow> run_probes drv pcs (if ok then n + 1 else n) w')"

definition healthyConnections_later :: "'w pool_driver \<Rightarrow> 'w pool \<Rightarrow> nat" where
  "healthyConnections_later drv s =
     run_probes drv (probes (stats_loop s)) (healthyConnections (stats_loop s)) (backend s)"



section \<open>Example inputs\<close>

text \<open>The leaf filter \<open>{field: 'age', operator: 'gt', value: 18}\<close>.\<close>

definition age_gt_18 :: qfilter where
  "age_gt_18 = QFilter (Some ''age'') (Some ''gt'') (VNum 18) None None"

definition name_eq_bob :: qfilter where
  "name_eq_bob = QFilter (Some ''name'') (Some ''eq'') (VStr ''bob'') None None"

text \<open>
  The composite the query builder's \<open>where\<close> makes of two leaves:
  \<open>{field: '', operator: 'eq', value: null, logicalOperator: 'and', children: [a, b]}\<close>,
  and the composite shape without leaf properties,
  \<open>{logicalOperator: 'and', children: [a, b]}\<close>.
\<close>

definition builder_and :: "qfilter \<Rightarrow> qfilter \<Rightarrow> qfilter" where
  "builder_and a b = QFilter (Some []) (Some ''eq'') VNull (Some ''and'') (Some [a, b])"

definition bare_and :: "qfilter \<Rightarrow> qfilter \<Rightarrow> qfilter" where
  "bare_and a b = QFilter None None VUndefined (Some ''and'') (Some [a, b])"

definition only_filter :: "qfilter \<Rightarrow> query" where
  "only_filter f = \<lparr>filter_q = Some f, select_q = None, orderBy = None, pagination = None\<rparr>"

text \<open>The eleven operators of the filter model.\<close>

definition supported_operators :: "string list" where
  "supported_operators =
     [''eq'', ''ne'', ''lt'', ''le'', ''gt'', ''ge'', ''in'', ''notin'', ''contains'',
      ''startswith'', ''endswith'']"

text \<open>
  A database with one table, \<open>users\<close>, of two rows. The driver answers the statements
  used below as SQLite would on that table and rejects every other statement.
\<close>

definition alice :: jsvalue where
  "alice = VObj [(''name'', VStr ''alice''), (''age'', VNum 30)]"

definition bob :: jsvalue where
  "bob = VObj [(''name'', VStr ''bob''), (''age'', VNum 17)]"

definition users_db :: "unit sqlite_driver" where
  "users_db =
     \<lparr>sq_now = (\<lambda>w. 0),
      stmt_all = (\<lambda>sql params w.
        if sql = ''SELECT * FROM users LIMIT 1'' \<and> params = [] then (Inr [alice], w)
        else if sql = ''SELECT * FROM users WHERE name = ?'' \<and> params = [VStr ''bob'']
          then (Inr [bob], w)
        else (Inl (Error ''SQL error'' []), w)),
      stmt_get = (\<lambda>sql params w.
        if sql = ''SELECT COUNT(*) as count FROM users'' \<and> params = []
          then (Inr (VObj [(''count'', VNum 2)]), w)
        else (Inl (Error ''SQL error'' []), w)),
      stmt_run = (\<lambda>sql params w. (Inl (Error ''SQL error'' []), w))\<rparr>"

definition fresh_provider :: "unit provider" where
  "fresh_provider = \<lparr>totalQueries = 0, queryTimes = [], world = ()\<rparr>"

definition name_like_bob :: qfilter where
  "name_like_bob = QFilter (Some ''name'') (Some ''like'') (VStr ''bob'') None None"

definition first_page_of_one :: query where
  "first_page_of_one =
     \<lparr>filter_q = None, select_q = None, orderBy = None,
      pagination = Some \<lparr>take_opt = Some 1, skip_opt = None\<rparr>\<rparr>"

definition page_without_take :: query where
  "page_without_take =
     \<lparr>filter_q = None, select_q = None, orderBy = None,
      pagination = Some \<lparr>take_opt = None, skip_opt = Some 20\<rparr>\<rparr>"





text \<open>What one call of the pool added to the events, and how many connector
  invocations are among them.\<close>

definition new_events :: "'w pool \<Rightarrow> 'w pool \<Rightarrow> event list" where
  "new_events s s' = drop (length (events s)) (events s')"

fun is_connect :: "event \<Rightarrow> bool" where
  "is_connect (Connect cfg) = True"
| "is_connect (Failed a e) = False"
| "is_connect (Sleep ms) = False"
| "is_connect (Established a) = False"

definition connector_invocations :: "event list \<Rightarrow> nat" where
  "connector_invocations evs = length (filter is_connect evs)"

text \<open>
  The events of consecutive failed attempts, numbered from \<open>a\<close>, with the errors
  \<open>es\<close>, under delay \<open>d\<close> and \<open>N\<close> attempts at most: each attempt invokes the
  connector and fails, and is followed by a sleep of \<open>d * 2^(a-1)\<close> unless it is the
  last attempt allowed.
\<close>

fun failure_events :: "connection_config \<Rightarrow> nat \<Rightarrow> nat \<Rightarrow> nat \<Rightarrow> js_error list \<Rightarrow> event list" where
  "failure_events cfg d N a [] = []"
| "failure_events cfg d N a (e # es) =
     [Connect cfg, Failed a e] @ (if a < N then [Sleep (d * 2 ^ (a - 1))] else []) @
     failure_events cfg d N (Suc a) es"

text \<open>A healthy connection exists for the id: there is one, and its probe answers true.\<close>

definition healthy_connection_exists ::
  "'w pool_driver \<Rightarrow> string \<Rightarrow> connection_config \<Rightarrow> 'w pool \<Rightarrow> bool" where
  "healthy_connection_exists drv connectionId config s =
     (case map_of (connections s) connectionId of
        None \<Rightarrow> False
      | Some c \<Rightarrow> fst (isConnectionHealthy drv c config s))"

text \<open>
  A world for the pool in which opening the SQLite file fails the first \<open>k\<close> times
  and succeeds afterwards; the world counts the attempts to open. The handle is open
  (healthy) as long as it has not been closed.
\<close>

record flaky_world =
  opens :: nat
  closed_handles :: "connection list"

definition flaky :: "nat \<Rightarrow> flaky_world pool_driver" where
  "flaky k =
     \<lparr>import_module = (\<lambda>name w. (Inr (), w)),
      mongo_connect = (\<lambda>cs opts db w. (Inl (Error ''no server'' []), w)),
      sqlite_open = (\<lambda>path opts w.
        if opens w < k
        then (Inl (Error (''open failed #'' @ show_nat (opens w + 1)) []), w\<lparr>opens := opens w + 1\<rparr>)
        else (Inr (SqliteDatabase 7), w\<lparr>opens := opens w + 1\<rparr>)),
      admin_ping = (\<lambda>c w. (Inl (Error ''no server'' []), w)),
      open_flag = (\<lambda>c w. c \<notin> set (closed_handles w)),
      fetch_head = (\<lambda>c w. (Inl (Error ''no network'' []), w)),
      client_close = (\<lambda>c w. (Inr (), w)),
      db_close = (\<lambda>c w. (Inr (), w\<lparr>closed_handles := closed_handles w @ [c]\<rparr>)),
      pl_now = (\<lambda>w. 0)\<rparr>"


definition sqlite_memory :: connection_config where
  "sqlite_memory =
     \<lparr>ctype = ''sqlite'', connectionString = None, databaseName = None,
      filePath = Some '':memory:'', baseUrl = None, headers = None, poolSize = None,
      minPoolSize = None, maxIdleTime = None, timeout = None, verbose = None,
      fileMustExist = None\<rparr>"

definition empty_pool :: "flaky_world pool" where
  "empty_pool = new_pool 1 \<lparr>opens = 0, closed_handles = []\<rparr>"

text \<open>
  A SQLite driver that runs one statement only, and a MongoDB driver that runs only
  cursors with a given limit: every other statement or cursor is refused.
\<close>

definition only_statement :: "string \<Rightarrow> 'w sqlite_driver \<Rightarrow> 'w sqlite_driver" where
  "only_statement stmt drv =
     drv\<lparr>stmt_all := (\<lambda>sql params w.
            if sql = stmt then stmt_all drv sql params w
            else (Inl (Error ''statement refused'' []), w))\<rparr>"

definition only_limit :: "int \<Rightarrow> 'w mongo_driver \<Rightarrow> 'w mongo_driver" where
  "only_limit n drv =
     drv\<lparr>toArray := (\<lambda>name c w.
            if climit c = Some n then toArray drv name c w
            else (Inl (Error ''cursor refused'' []), w))\<rparr>"

text \<open>
  The two-row table again, as the drivers answer a first page of at most 50 rows, and
  the query \<open>{pagination: {take: 0}}\<close>.
\<close>

definition users_page_db :: "unit sqlite_driver" where
  "users_page_db =
     \<lparr>sq_now = (\<lambda>w. 0),
      stmt_all = (\<lambda>sql params w.
        if sql = ''SELECT * FROM users LIMIT 50'' \<and> params = [] then (Inr [alice, bob], w)
        else (Inl (Error ''SQL error'' []), w)),
      stmt_get = (\<lambda>sql params w.
        if sql = ''SELECT COUNT(*) as count FROM users'' \<and> params = []
          then (Inr (VObj [(''count'', VNum 2)]), w)
        else (Inl (Error ''SQL error'' []), w)),
      stmt_run = (\<lambda>sql params w. (Inl (Error ''SQL error'' []), w))\<rparr>"

definition users_mongo :: "unit mongo_driver" where
  "users_mongo =
     \<lparr>mg_now = (\<lambda>w. 0),
      mg_new_date = (\<lambda>w. VDate ''2026-01-01T00:00:00.000Z'' ''Thu Jan 01 2026''),
      get_collection = (\<lambda>name w. (Inr (), w)),
      toArray = (\<lambda>name c w.
        if name = ''users'' \<and> cquery c = VObj [] \<and> cskip c = None \<and> climit c = Some 50
          then (Inr [alice, bob], w)
        else (Inl (Error ''unexpected cursor'' []), w)),
      countDocuments = (\<lambda>name f w. (Inr (VNum 2), w)),
      insertOne = (\<lambda>name d w. (Inl (Error ''read only'' []), w)),
      findOne = (\<lambda>name f w. (Inr VNull, w)),
      findOneAndUpdate = (\<lambda>name f u w. (Inl (Error ''read only'' []), w)),
      deleteOne = (\<lambda>name f w. (Inl (Error ''read only'' []), w))\<rparr>"

definition page_take_zero :: query where
  "page_take_zero =
     \<lparr>filter_q = None, select_q = None, orderBy = None,
      pagination = Some \<lparr>take_opt = Some 0, skip_opt = None\<rparr>\<rparr>"

text \<open>
  Every active interval is the constructor's sweep or is the one \<open>healthChecks\<close>
  records for some connection id.
\<close>

definition timers_registered :: "'w pool \<Rightarrow> bool" where
  "timers_registered s =
     list_all (\<lambda>p. snd p = Sweep \<or> (\<exists>k. map_of (healthChecks s) k = Some (fst p))) (timers s)"


section \<open>The translators on leaves, composites and unknown operators\<close>

lemma join_Cons: "join sep (x # xs) = x @ (if xs = [] then [] else sep @ join sep xs)"
  by (cases xs) simp_all

lemma encode_age_gt_18: "encodeURIComponent ''age gt 18'' = ''age%20gt%2018''"
  by code_simp

lemma odata_age_gt_18: "convertFilterToOData (Some age_gt_18) = ''age gt 18''"
  by code_simp

lemma sql_age_gt_18: "convertODataFilterToSQL (Some age_gt_18) [] = (''age > ?'', [VNum 18])"
  by (simp add: convertODataFilterToSQL_def age_gt_18_def tpl_def)

lemma mongo_age_gt_18:
  "convertODataFilterToMongo (Some age_gt_18) = VObj [(''age'', VObj [(''$gt'', VNum 18)])]"
  by (simp add: convertODataFilterToMongo_def age_gt_18_def tpl_def)

lemma query_string_age_gt_18:
  "buildODataQueryString (only_filter age_gt_18) = ''?$filter=age%20gt%2018&$count=true''"
  by code_simp

lemma query_string_starts_with_filter:
  "\<exists>post. buildODataQueryString
            \<lparr>filter_q = Some age_gt_18, select_q = sel, orderBy = ob, pagination = pg\<rparr> =
          ''?$filter=age%20gt%2018'' @ post"
  unfolding buildODataQueryString_def Let_def
  by (simp add: odata_age_gt_18 encode_age_gt_18 join_Cons split: option.splits)

lemma statement_age_gt_18:
  "sqlite_query_sql ''users'' (only_filter age_gt_18) =
     (''SELECT * FROM users WHERE age > ?'', [VNum 18])"
  by (simp add: sqlite_query_sql_def only_filter_def sql_age_gt_18)

text \<open>
  Claim C5. The leaf filter \<open>{field: 'age', operator: 'gt', value: 18}\<close> translates, for
  the relational backend, to the SQL fragment \<open>age > ?\<close> with the bound parameter list
  \<open>[18]\<close>; for the document backend, to the filter object \<open>{age: {$gt: 18}}\<close>; for the
  remote-protocol backend, to a query string that contains
  \<open>$filter=age%20gt%2018\<close>: the query string of the query with only this filter is
  \<open>?$filter=age%20gt%2018&$count=true\<close>, and whatever the query's selection, ordering
  and pagination are, its query string starts with \<open>?$filter=age%20gt%2018\<close>.
\<close>

theorem leaf_age_gt_18_translations:
  "convertODataFilterToSQL (Some age_gt_18) [] = (''age > ?'', [VNum 18]) \<and>
   convertODataFilterToMongo (Some age_gt_18) = VObj [(''age'', VObj [(''$gt'', VNum 18)])] \<and>
   buildODataQueryString (only_filter age_gt_18) = ''?$filter=age%20gt%2018&$count=true'' \<and>
   (\<exists>post. buildODataQueryString
             \<lparr>filter_q = Some age_gt_18, select_q = sel, orderBy = ob, pagination = pg\<rparr> =
           ''?$filter=age%20gt%2018'' @ post)"
  using sql_age_gt_18 mongo_age_gt_18 query_string_age_gt_18 query_string_starts_with_filter
  by blast

text \<open>
  Claim C1 says that each of the three translators recurses through the children of a
  composite node and keeps the logical grouping, so that a two-leaf AND composite is
  satisfied only by rows satisfying both leaves. The code does not: on the composite the
  query builder makes of the leaves \<open>age > 18\<close> and \<open>name = 'bob'\<close>, and on the
  composite without leaf properties, each translator emits one equality on the
  composite's own \<open>field\<close> and \<open>value\<close>, in which neither leaf appears.
\<close>

theorem composite_children_not_translated:
  "convertODataFilterToSQL (Some (builder_and age_gt_18 name_eq_bob)) [] = ('' = ?'', [VNull]) \<and>
   convertODataFilterToMongo (Some (builder_and age_gt_18 name_eq_bob)) = VObj [([], VNull)] \<and>
   convertFilterToOData (Some (builder_and age_gt_18 name_eq_bob)) = '' eq null'' \<and>
   convertODataFilterToSQL (Some (bare_and age_gt_18 name_eq_bob)) [] =
     (''undefined = ?'', [VUndefined]) \<and>
   convertODataFilterToMongo (Some (bare_and age_gt_18 name_eq_bob)) =
     VObj [(''undefined'', VUndefined)] \<and>
   convertFilterToOData (Some (bare_and age_gt_18 name_eq_bob)) = ''undefined eq null''"
  by (simp add: convertODataFilterToSQL_def convertODataFilterToMongo_def
      convertFilterToOData_def builder_and_def bare_and_def tpl_def formatODataValue_def)

lemma sql_unknown_operator:
  "op \<notin> set (map Some supported_operators) \<Longrightarrow>
   convertODataFilterToSQL (Some (QFilter f op v lo ch)) ps =
   convertODataFilterToSQL (Some (QFilter f (Some ''eq'') v lo ch)) ps"
  by (simp add: convertODataFilterToSQL_def supported_operators_def)

lemma mongo_unknown_operator:
  "op \<notin> set (map Some supported_operators) \<Longrightarrow>
   convertODataFilterToMongo (Some (QFilter f op v lo ch)) =
   convertODataFilterToMongo (Some (QFilter f (Some ''eq'') v lo ch))"
  by (simp add: convertODataFilterToMongo_def supported_operators_def)

lemma odata_unknown_operator:
  "op \<notin> set (map Some supported_operators) \<Longrightarrow>
   convertFilterToOData (Some (QFilter f op v lo ch)) =
   convertFilterToOData (Some (QFilter f (Some ''eq'') v lo ch))"
  by (simp add: convertFilterToOData_def supported_operators_def)

lemma sqlite_executeQuery_unknown_operator:
  assumes "op \<notin> set (map Some supported_operators)"
  shows "sqlite_executeQuery drv e (q\<lparr>filter_q := Some (QFilter f op v lo ch)\<rparr>) =
         sqlite_executeQuery drv e (q\<lparr>filter_q := Some (QFilter f (Some ''eq'') v lo ch)\<rparr>)"
proof -
  have "sqlite_query_sql e (q\<lparr>filter_q := Some (QFilter f op v lo ch)\<rparr>) =
        sqlite_query_sql e (q\<lparr>filter_q := Some (QFilter f (Some ''eq'') v lo ch)\<rparr>)"
    by (simp add: sqlite_query_sql_def sql_unknown_operator [OF assms])
  then show ?thesis
    by (simp add: sqlite_executeQuery_def sqlite_executeQuery_body_def)
qed

lemma mongo_executeQuery_unknown_operator:
  assumes "op \<notin> set (map Some supported_operators)"
  shows "mongo_executeQuery drv e (q\<lparr>filter_q := Some (QFilter f op v lo ch)\<rparr>) =
         mongo_executeQuery drv e (q\<lparr>filter_q := Some (QFilter f (Some ''eq'') v lo ch)\<rparr>)"
proof -
  have "mongo_query_cursor (q\<lparr>filter_q := Some (QFilter f op v lo ch)\<rparr>) =
        mongo_query_cursor (q\<lparr>filter_q := Some (QFilter f (Some ''eq'') v lo ch)\<rparr>)"
    by (simp add: mongo_query_cursor_def mongo_unknown_operator [OF assms])
  then show ?thesis
    by (simp add: mongo_executeQuery_def mongo_executeQuery_body_def)
qed

lemma http_executeQuery_unknown_operator:
  assumes "op \<notin> set (map Some supported_operators)"
  shows "http_executeQuery drv url e (q\<lparr>filter_q := Some (QFilter f op v lo ch)\<rparr>) =
         http_executeQuery drv url e (q\<lparr>filter_q := Some (QFilter f (Some ''eq'') v lo ch)\<rparr>)"
proof -
  have "buildODataQueryString (q\<lparr>filter_q := Some (QFilter f op v lo ch)\<rparr>) =
        buildODataQueryString (q\<lparr>filter_q := Some (QFilter f (Some ''eq'') v lo ch)\<rparr>)"
    by (simp add: buildODataQueryString_def odata_unknown_operator [OF assms])
  then show ?thesis
    by (simp add: http_executeQuery_def http_executeQuery_body_def)
qed

text \<open>
  Claim C2, as stated, fails: a filter node whose operator is none of the eleven is not a
  translation error, and \<open>executeQuery\<close> does not fail on it. The leaf
  \<open>{field: 'name', operator: 'like', value: 'bob'}\<close> is translated by each translator
  exactly as an equality, and \<open>SQLiteProvider.executeQuery\<close> on the two-row table runs
  \<open>SELECT * FROM users WHERE name = ?\<close> and returns a successful result with the row
  for bob.
\<close>

theorem unknown_operator_counterexample:
  "convertODataFilterToSQL (Some name_like_bob) [] = (''name = ?'', [VStr ''bob'']) \<and>
   convertODataFilterToMongo (Some name_like_bob) = VObj [(''name'', VStr ''bob'')] \<and>
   convertFilterToOData (Some name_like_bob) = ''name eq '' @ [CHR 0x27] @ ''bob'' @ [CHR 0x27] \<and>
   success (fst (sqlite_executeQuery users_db ''users'' (only_filter name_like_bob) fresh_provider)) \<and>
   data (fst (sqlite_executeQuery users_db ''users'' (only_filter name_like_bob) fresh_provider)) =
     VArr [bob]"
  by (simp add: convertODataFilterToSQL_def convertODataFilterToMongo_def
      convertFilterToOData_def name_like_bob_def tpl_def formatODataValue_def
      double_quotes_def sqlite_executeQuery_def sqlite_executeQuery_body_def
      sqlite_query_sql_def only_filter_def users_db_def fresh_provider_def try_catch_def
      io_bind_def io_return_def io_get_def io_modify_def count_query_def push_time_def
      on_world_def get_prop_def opt_prop_def)

text \<open>
  Claim C2, amended. For every filter node whose operator is not one of the eleven
  supported operators (also when the operator is absent), each of the three translators
  returns what it returns for the same node with the operator \<open>eq\<close>: the \<open>default\<close>
  branch of the \<open>switch\<close> is the equality form. Accordingly \<open>executeQuery\<close> of each
  provider behaves on such a query exactly as on the query with \<open>eq\<close> in its place; the
  operator alone never makes the result a failure.
\<close>

theorem unknown_operator_translated_as_eq:
  assumes "op \<notin> set (map Some supported_operators)"
  shows "convertODataFilterToSQL (Some (QFilter f op v lo ch)) ps =
           convertODataFilterToSQL (Some (QFilter f (Some ''eq'') v lo ch)) ps \<and>
         convertODataFilterToMongo (Some (QFilter f op v lo ch)) =
           convertODataFilterToMongo (Some (QFilter f (Some ''eq'') v lo ch)) \<and>
         convertFilterToOData (Some (QFilter f op v lo ch)) =
           convertFilterToOData (Some (QFilter f (Some ''eq'') v lo ch)) \<and>
         sqlite_executeQuery sdrv e (q\<lparr>filter_q := Some (QFilter f op v lo ch)\<rparr>) sp =
           sqlite_executeQuery sdrv e (q\<lparr>filter_q := Some (QFilter f (Some ''eq'') v lo ch)\<rparr>) sp \<and>
         mongo_executeQuery mdrv e (q\<lparr>filter_q := Some (QFilter f op v lo ch)\<rparr>) mp =
           mongo_executeQuery mdrv e (q\<lparr>filter_q := Some (QFilter f (Some ''eq'') v lo ch)\<rparr>) mp \<and>
         http_executeQuery hdrv url e (q\<lparr>filter_q := Some (QFilter f op v lo ch)\<rparr>) hp =
           http_executeQuery hdrv url e (q\<lparr>filter_q := Some (QFilter f (Some ''eq'') v lo ch)\<rparr>) hp"
proof (intro conjI)
  show "convertODataFilterToSQL (Some (QFilter f op v lo ch)) ps =
        convertODataFilterToSQL (Some (QFilter f (Some ''eq'') v lo ch)) ps"
    by (rule sql_unknown_operator [OF assms])
  show "convertODataFilterToMongo (Some (QFilter f op v lo ch)) =
        convertODataFilterToMongo (Some (QFilter f (Some ''eq'') v lo ch))"
    by (rule mongo_unknown_operator [OF assms])
  show "convertFilterToOData (Some (QFilter f op v lo ch)) =
        convertFilterToOData (Some (QFilter f (Some ''eq'') v lo ch))"
    by (rule odata_unknown_operator [OF assms])
  show "sqlite_executeQuery sdrv e (q\<lparr>filter_q := Some (QFilter f op v lo ch)\<rparr>) sp =
        sqlite_executeQuery sdrv e (q\<lparr>filter_q := Some (QFilter f (Some ''eq'') v lo ch)\<rparr>) sp"
    by (rule fun_cong [OF sqlite_executeQuery_unknown_operator [OF assms]])
  show "mongo_executeQuery mdrv e (q\<lparr>filter_q := Some (QFilter f op v lo ch)\<rparr>) mp =
        mongo_executeQuery mdrv e (q\<lparr>filter_q := Some (QFilter f (Some ''eq'') v lo ch)\<rparr>) mp"
    by (rule fun_cong [OF mongo_executeQuery_unknown_operator [OF assms]])
  show "http_executeQuery hdrv url e (q\<lparr>filter_q := Some (QFilter f op v lo ch)\<rparr>) hp =
        http_executeQuery hdrv url e (q\<lparr>filter_q := Some (QFilter f (Some ''eq'') v lo ch)\<rparr>) hp"
    by (rule fun_cong [OF http_executeQuery_unknown_operator [OF assms]])
qed

theorem unknown_operator_translated_as_eq_witness:
  "Some ''like'' \<notin> set (map Some supported_operators) \<and>
   convertODataFilterToSQL (Some (QFilter (Some ''name'') (Some ''like'') (VStr ''bob'') None None)) [] =
     convertODataFilterToSQL (Some (QFilter (Some ''name'') (Some ''eq'') (VStr ''bob'') None None)) [] \<and>
   sqlite_executeQuery users_db ''users''
       ((only_filter age_gt_18)\<lparr>filter_q := Some (QFilter (Some ''name'') (Some ''like'') (VStr ''bob'') None None)\<rparr>)
       fresh_provider =
     sqlite_executeQuery users_db ''users''
       ((only_filter age_gt_18)\<lparr>filter_q := Some (QFilter (Some ''name'') (Some ''eq'') (VStr ''bob'') None None)\<rparr>)
       fresh_provider"
proof -
  have h: "Some ''like'' \<notin> set (map Some supported_operators)"
    by (simp add: supported_operators_def)
  from unknown_operator_translated_as_eq [OF h, of "Some ''name''" "VStr ''bob''" None None "[]"
      users_db "''users''" "only_filter age_gt_18" fresh_provider]
  show ?thesis using h by blast
qed

section \<open>The providers: page limit, count and failures\<close>

lemmas io_defs = io_bind_def io_return_def io_throw_def io_get_def io_modify_def
  count_query_def push_time_def on_world_def get_prop_def

lemma show_int_50: "show_int 50 = ''50''"
  by code_simp

lemma only_statement_same:
  "fst (sqlite_query_sql e q) = stmt \<Longrightarrow>
   sqlite_executeQuery (only_statement stmt drv) e q = sqlite_executeQuery drv e q"
  by (simp add: sqlite_executeQuery_def sqlite_executeQuery_body_def only_statement_def)

lemma only_limit_same:
  "climit (mongo_query_cursor q) = Some n \<Longrightarrow>
   mongo_executeQuery (only_limit n drv) e q = mongo_executeQuery drv e q"
  by (simp add: mongo_executeQuery_def mongo_executeQuery_body_def only_limit_def)

lemma sqlite_executeQuery_runs_statement:
  "(case stmt_all drv (fst (sqlite_query_sql e q)) (snd (sqlite_query_sql e q)) (world p) of
      (Inl err, w') \<Rightarrow> fst (sqlite_executeQuery drv e q p) = query_failed err
    | (Inr rows, w') \<Rightarrow>
        success (fst (sqlite_executeQuery drv e q p)) \<longrightarrow>
        data (fst (sqlite_executeQuery drv e q p)) = VArr rows)"
  by (auto simp: sqlite_executeQuery_def sqlite_executeQuery_body_def try_catch_def io_defs
      query_failed_def split: prod.splits sum.splits if_splits)

lemma mongo_executeQuery_runs_cursor:
  "(case get_collection drv e (world p) of
      (Inl err, w1) \<Rightarrow> fst (mongo_executeQuery drv e q p) = query_failed err
    | (Inr u, w1) \<Rightarrow>
        (case toArray drv e (mongo_query_cursor q) w1 of
           (Inl err, w2) \<Rightarrow> fst (mongo_executeQuery drv e q p) = query_failed err
         | (Inr docs, w2) \<Rightarrow>
             success (fst (mongo_executeQuery drv e q p)) \<longrightarrow>
             data (fst (mongo_executeQuery drv e q p)) = VArr docs))"
  by (auto simp: mongo_executeQuery_def mongo_executeQuery_body_def try_catch_def io_defs
      query_failed_def split: prod.splits sum.splits if_splits)

lemma limit_50_statement:
  assumes "pagination q = Some pg" and "take_opt pg = None \<or> take_opt pg = Some 0"
  shows "fst (sqlite_query_sql e q) =
           fst (sqlite_query_sql e (q\<lparr>pagination := None\<rparr>)) @ '' LIMIT 50'' @
           (if truthy_num (skip_opt pg) then '' OFFSET '' @ show_int (the (skip_opt pg)) else [])"
  using assms
  by (auto simp: sqlite_query_sql_def or_default_def show_int_50 Let_def
      split: option.splits prod.splits)

lemma limit_50_cursor:
  assumes "pagination q = Some pg" and "take_opt pg = None \<or> take_opt pg = Some 0"
  shows "climit (mongo_query_cursor q) = Some 50"
  using assms
  by (auto simp: mongo_query_cursor_def or_default_def Let_def split: option.splits)

text \<open>
  Claim C9. For every query whose pagination object is present and whose \<open>take\<close> is
  absent or 0, \<open>executeQuery\<close> of both providers applies a default page limit of 50.
  The statement the SQLite provider prepares is the statement of the same query without
  pagination followed by \<open>LIMIT 50\<close> (and by \<open>OFFSET n\<close> when \<open>skip\<close> is a
  non-zero \<open>n\<close>); \<open>SQLiteProvider.executeQuery\<close> passes no other statement to
  \<open>all\<close> (it behaves the same on a driver that refuses every other statement), a
  failure of that statement is the failed result it returns, and the data of a successful
  result are the rows the driver returned for that statement. The cursor the MongoDB
  provider builds has had \<open>limit(50)\<close> applied; \<open>MongoDBProvider.executeQuery\<close> runs
  no cursor with another limit, a failure of that cursor is the failed result it returns,
  and the data of a successful result are the documents that cursor returned.
\<close>

theorem default_page_limit_is_50:
  assumes "pagination q = Some pg" and "take_opt pg = None \<or> take_opt pg = Some 0"
  shows "fst (sqlite_query_sql e q) =
           fst (sqlite_query_sql e (q\<lparr>pagination := None\<rparr>)) @ '' LIMIT 50'' @
           (if truthy_num (skip_opt pg) then '' OFFSET '' @ show_int (the (skip_opt pg)) else []) \<and>
         climit (mongo_query_cursor q) = Some 50 \<and>
         sqlite_executeQuery sdrv e q sp =
           sqlite_executeQuery
             (only_statement
                (fst (sqlite_query_sql e (q\<lparr>pagination := None\<rparr>)) @ '' LIMIT 50'' @
                 (if truthy_num (skip_opt pg) then '' OFFSET '' @ show_int (the (skip_opt pg)) else []))
                sdrv) e q sp \<and>
         (case stmt_all sdrv
                 (fst (sqlite_query_sql e (q\<lparr>pagination := None\<rparr>)) @ '' LIMIT 50'' @
                  (if truthy_num (skip_opt pg) then '' OFFSET '' @ show_int (the (skip_opt pg)) else []))
                 (snd (sqlite_query_sql e q)) (world sp) of
            (Inl err, w') \<Rightarrow> fst (sqlite_executeQuery sdrv e q sp) = query_failed err
          | (Inr rows, w') \<Rightarrow>
              success (fst (sqlite_executeQuery sdrv e q sp)) \<longrightarrow>
              data (fst (sqlite_executeQuery sdrv e q sp)) = VArr rows) \<and>
         mongo_executeQuery mdrv e q mp = mongo_executeQuery (only_limit 50 mdrv) e q mp \<and>
         (case get_collection mdrv e (world mp) of
            (Inl err, w1) \<Rightarrow> fst (mongo_executeQuery mdrv e q mp) = query_failed err
          | (Inr u, w1) \<Rightarrow>
              (case toArray mdrv e ((mongo_query_cursor q)\<lparr>climit := Some 50\<rparr>) w1 of
                 (Inl err, w2) \<Rightarrow> fst (mongo_executeQuery mdrv e q mp) = query_failed err
               | (Inr docs, w2) \<Rightarrow>
                   success (fst (mongo_executeQuery mdrv e q mp)) \<longrightarrow>
                   data (fst (mongo_executeQuery mdrv e q mp)) = VArr docs))"
proof -
  note st = limit_50_statement [OF assms, of e]
  note cu = limit_50_cursor [OF assms]
  have c: "(mongo_query_cursor q)\<lparr>climit := Some 50\<rparr> = mongo_query_cursor q"
    using cu by (cases "mongo_query_cursor q") simp
  show ?thesis
    using st cu only_statement_same [OF st, of sdrv, THEN fun_cong, of sp]
      only_limit_same [OF cu, of mdrv e, THEN fun_cong, of mp]
      sqlite_executeQuery_runs_statement [where drv = sdrv and e = e and q = q and p = sp]
      mongo_executeQuery_runs_cursor [where drv = mdrv and e = e and q = q and p = mp]
    by (simp only: c st [symmetric])
qed

lemma page_zero_sql: "sqlite_query_sql ''users'' page_take_zero = (''SELECT * FROM users LIMIT 50'', [])"
  by (simp add: sqlite_query_sql_def page_take_zero_def or_default_def show_int_50 truthy_num_def)

lemma page_zero_sqlite:
  "fst (sqlite_executeQuery users_page_db ''users'' page_take_zero fresh_provider) =
     \<lparr>data = VArr [alice, bob], success = True, errors = None,
      metadata = \<lparr>count = VNum 2, executionTime = 0, cacheStatus = ''miss''\<rparr>\<rparr>"
  by (simp add: sqlite_executeQuery_def sqlite_executeQuery_body_def page_zero_sql try_catch_def
      io_defs opt_prop_def users_page_db_def fresh_provider_def)

lemma page_zero_mongo:
  "fst (mongo_executeQuery users_mongo ''users'' page_take_zero fresh_provider) =
     \<lparr>data = VArr [alice, bob], success = True, errors = None,
      metadata = \<lparr>count = VNum 2, executionTime = 0, cacheStatus = ''miss''\<rparr>\<rparr>"
  by (simp add: mongo_executeQuery_def mongo_executeQuery_body_def mongo_query_cursor_def
      page_take_zero_def or_default_def try_catch_def io_defs users_mongo_def fresh_provider_def)

theorem default_page_limit_is_50_witness:
  "pagination page_take_zero = Some \<lparr>take_opt = Some 0, skip_opt = None\<rparr> \<and>
   fst (sqlite_query_sql ''users'' page_take_zero) = ''SELECT * FROM users LIMIT 50'' \<and>
   climit (mongo_query_cursor page_take_zero) = Some 50 \<and>
   sqlite_executeQuery users_page_db ''users'' page_take_zero fresh_provider =
     sqlite_executeQuery (only_statement ''SELECT * FROM users LIMIT 50'' users_page_db)
       ''users'' page_take_zero fresh_provider \<and>
   stmt_all users_page_db ''SELECT * FROM users LIMIT 50'' [] () = (Inr [alice, bob], ()) \<and>
   success (fst (sqlite_executeQuery users_page_db ''users'' page_take_zero fresh_provider)) \<and>
   data (fst (sqlite_executeQuery users_page_db ''users'' page_take_zero fresh_provider)) =
     VArr [alice, bob] \<and>
   mongo_executeQuery users_mongo ''users'' page_take_zero fresh_provider =
     mongo_executeQuery (only_limit 50 users_mongo) ''users'' page_take_zero fresh_provider \<and>
   success (fst (mongo_executeQuery users_mongo ''users'' page_take_zero fresh_provider)) \<and>
   data (fst (mongo_executeQuery users_mongo ''users'' page_take_zero fresh_provider)) =
     VArr [alice, bob]"
proof -
  have p: "pagination page_take_zero = Some \<lparr>take_opt = Some 0, skip_opt = None\<rparr>"
    by (simp add: page_take_zero_def)
  have t: "take_opt \<lparr>take_opt = Some 0, skip_opt = None\<rparr> = None \<or>
           take_opt \<lparr>take_opt = Some (0::int), skip_opt = None\<rparr> = Some 0"
    by simp
  have s: "fst (sqlite_query_sql ''users'' (page_take_zero\<lparr>pagination := None\<rparr>)) =
           ''SELECT * FROM users''"
    by (simp add: sqlite_query_sql_def page_take_zero_def)
  have a: "stmt_all users_page_db ''SELECT * FROM users LIMIT 50'' [] () = (Inr [alice, bob], ())"
    by (simp add: users_page_db_def)
  from default_page_limit_is_50 [OF p t, where e = "''users''" and sdrv = users_page_db
         and sp = fresh_provider and mdrv = users_mongo and mp = fresh_provider]
  show ?thesis
    using p s a page_zero_sqlite page_zero_mongo
    by (simp add: truthy_num_def)
qed

text \<open>
  Claim C6 says that a successful \<open>executeQuery\<close> returns \<open>metadata.count\<close> equal to
  the number of rows of the returned page. The code does not: the SQLite provider takes
  the count from \<open>SELECT COUNT(*) as count FROM entity\<close>, a statement with neither the
  filter nor the limit. On the two-row table with \<open>{pagination: {take: 1}}\<close> the page
  has one row and the count is 2.
\<close>

theorem count_is_not_page_length:
  "success (fst (sqlite_executeQuery users_db ''users'' first_page_of_one fresh_provider)) \<and>
   data (fst (sqlite_executeQuery users_db ''users'' first_page_of_one fresh_provider)) =
     VArr [alice] \<and>
   count (metadata (fst (sqlite_executeQuery users_db ''users'' first_page_of_one fresh_provider))) =
     VNum 2"
  by code_simp



























section \<open>The connection pool: retries, statistics and teardown\<close>

lemma delete_filter: "AList.delete k al = filter (\<lambda>p. fst p \<noteq> k) al"
  by (induction al) auto

lemma delete_absent: "map_of al k = None \<Longrightarrow> AList.delete k al = al"
  by (induction al) (auto split: if_splits)

lemma removeConnection_Inr:
  assumes "removeConnection drv k s = (Inr u, s')"
  shows "connections s' = AList.delete k (connections s)"
    and "healthChecks s' = AList.delete k (healthChecks s)"
    and "timers s' =
           (case map_of (healthChecks s) k of Some h \<Rightarrow> AList.delete h (timers s) | None \<Rightarrow> timers s)"
  using assms
  by (auto simp: removeConnection_def io_bind_def io_return_def on_backend_def clearInterval_def
      Let_def delete_absent split: option.splits prod.splits sum.splits if_splits)

lemma removeConnection_Inl:
  assumes "removeConnection drv k s = (Inl err, s')"
  shows "connections s' = connections s" and "healthChecks s' = healthChecks s"
    and "timers s' = timers s"
  using assms
  by (auto simp: removeConnection_def io_bind_def io_return_def on_backend_def Let_def
      split: option.splits prod.splits sum.splits if_splits)

lemma removeConnection_timers_subset:
  "set (timers (snd (removeConnection drv k s))) \<subseteq> set (timers s)"
proof (cases "removeConnection drv k s")
  case (Pair r s')
  show ?thesis
  proof (cases r)
    case (Inl err)
    with Pair show ?thesis by (simp add: removeConnection_Inl)
  next
    case (Inr u)
    with Pair show ?thesis
      by (auto simp: removeConnection_Inr delete_filter split: option.splits)
  qed
qed



















lemma stats_loop_healthy: "healthyConnections (foldl (stats_step s) l xs) = healthyConnections l"
  by (induction xs arbitrary: l) (simp_all add: stats_step_def Let_def split: option.splits)

lemma createConnection_fields:
  "createConnection drv cfg s = (r, s1) \<Longrightarrow>
   events s1 = events s @ [Connect cfg] \<and> connections s1 = connections s \<and>
   retryDelay s1 = retryDelay s \<and> retryAttempts s1 = retryAttempts s \<and>
   timers s1 = timers s \<and> healthChecks s1 = healthChecks s"
  by (auto simp: createConnection_def on_backend_def split: prod.splits)

lemma startConnectionHealthCheck_frame:
  "connections (startConnectionHealthCheck connId cfg s) = connections s \<and>
   retryAttempts (startConnectionHealthCheck connId cfg s) = retryAttempts s \<and>
   events (startConnectionHealthCheck connId cfg s) = events s \<and>
   retryDelay (startConnectionHealthCheck connId cfg s) = retryDelay s"
  by (simp add: startConnectionHealthCheck_def setInterval_def clearInterval_def Let_def
      split: option.splits)

lemma map_of_update_same: "map_of (AList.update k v al) k = Some v"
  by (simp add: update_conv')

lemma retry_loop_trace:
  "\<exists>es. (case fst (retry_loop drv connId cfg N a lastError s) of
           Inl err \<Rightarrow>
             length es = N + 1 - a \<and>
             events (snd (retry_loop drv connId cfg N a lastError s)) =
               events s @ failure_events cfg (retryDelay s) N a es \<and>
             err = exhausted_error connId N (if es = [] then lastError else Some (last es)) \<and>
             connections (snd (retry_loop drv connId cfg N a lastError s)) = connections s
         | Inr c \<Rightarrow>
             length es < N + 1 - a \<and>
             events (snd (retry_loop drv connId cfg N a lastError s)) =
               events s @ failure_events cfg (retryDelay s) N a es @
               [Connect cfg, Established (a + length es)] \<and>
             map_of (connections (snd (retry_loop drv connId cfg N a lastError s))) connId = Some c \<and>
             map_of (retryAttempts (snd (retry_loop drv connId cfg N a lastError s))) connId = Some 0)"
proof (induction drv connId cfg N a lastError s rule: retry_loop.induct)
  case (1 drv connId cfg N a lastError s)
  show ?case
  proof (cases "a \<le> N")
    case False
    then show ?thesis
      by (intro exI [of _ "[]"]) (simp add: retry_loop.simps)
  next
    case True
    obtain r s1 where cc: "createConnection drv cfg s = (r, s1)"
      by (cases "createConnection drv cfg s")
    note fr = createConnection_fields [OF cc]
    show ?thesis
    proof (cases r)
      case (Inr c)
      have ev: "events s1 = events s @ [Connect cfg]"
        using fr by simp
      show ?thesis
        using True cc Inr ev
        by (intro exI [of _ "[]"])
           (simp add: retry_loop.simps startConnectionHealthCheck_frame map_of_update_same)
    next
      case (Inl err)
      define s2 where "s2 = s1\<lparr>retryAttempts :=
          AList.update connId ((case map_of (retryAttempts s1) connId of None \<Rightarrow> 0 | Some n \<Rightarrow> n) + 1)
            (retryAttempts s1),
          events := events s1 @ [Failed a err]\<rparr>"
      define s3 where "s3 = (if a < N then sleep (retryDelay s2 * 2 ^ (a - 1)) s2 else s2)"
      have step: "retry_loop drv connId cfg N a lastError s =
                  retry_loop drv connId cfg N (a + 1) (Some err) s3"
        using True cc Inl
        by (subst retry_loop.simps) (simp add: s2_def s3_def Let_def)
      have IH: "\<exists>es. (case fst (retry_loop drv connId cfg N (a + 1) (Some err) s3) of
           Inl e' \<Rightarrow>
             length es = N + 1 - (a + 1) \<and>
             events (snd (retry_loop drv connId cfg N (a + 1) (Some err) s3)) =
               events s3 @ failure_events cfg (retryDelay s3) N (a + 1) es \<and>
             e' = exhausted_error connId N (if es = [] then Some err else Some (last es)) \<and>
             connections (snd (retry_loop drv connId cfg N (a + 1) (Some err) s3)) = connections s3
         | Inr c \<Rightarrow>
             length es < N + 1 - (a + 1) \<and>
             events (snd (retry_loop drv connId cfg N (a + 1) (Some err) s3)) =
               events s3 @ failure_events cfg (retryDelay s3) N (a + 1) es @
               [Connect cfg, Established (a + 1 + length es)] \<and>
             map_of (connections (snd (retry_loop drv connId cfg N (a + 1) (Some err) s3))) connId = Some c \<and>
             map_of (retryAttempts (snd (retry_loop drv connId cfg N (a + 1) (Some err) s3))) connId = Some 0)"
        using "1.IH" [OF True cc [symmetric] Inl refl s2_def [unfolded Let_def] s3_def] 
        by simp
      have s1_eq: "events s1 = events s @ [Connect cfg]" "connections s1 = connections s"
        "retryDelay s1 = retryDelay s"
        using fr by simp_all
      have s3_facts: "events s3 = events s @ [Connect cfg, Failed a err] @
                        (if a < N then [Sleep (retryDelay s * 2 ^ (a - 1))] else [])"
        "connections s3 = connections s" "retryDelay s3 = retryDelay s"
        using s1_eq by (simp_all add: s3_def s2_def sleep_def)
      from IH obtain es where es: "(case fst (retry_loop drv connId cfg N (a + 1) (Some err) s3) of
           Inl e' \<Rightarrow>
             length es = N + 1 - (a + 1) \<and>
             events (snd (retry_loop drv connId cfg N (a + 1) (Some err) s3)) =
               events s3 @ failure_events cfg (retryDelay s3) N (a + 1) es \<and>
             e' = exhausted_error connId N (if es = [] then Some err else Some (last es)) \<and>
             connections (snd (retry_loop drv connId cfg N (a + 1) (Some err) s3)) = connections s3
         | Inr c \<Rightarrow>
             length es < N + 1 - (a + 1) \<and>
             events (snd (retry_loop drv connId cfg N (a + 1) (Some err) s3)) =
               events s3 @ failure_events cfg (retryDelay s3) N (a + 1) es @
               [Connect cfg, Established (a + 1 + length es)] \<and>
             map_of (connections (snd (retry_loop drv connId cfg N (a + 1) (Some err) s3))) connId = Some c \<and>
             map_of (retryAttempts (snd (retry_loop drv connId cfg N (a + 1) (Some err) s3))) connId = Some 0)"
        by blast
      show ?thesis
        using es True
        by (intro exI [of _ "err # es"])
           (auto simp: step s3_facts split: sum.splits)
    qed
  qed
qed

lemma flaky_createConnection:
  "createConnection (flaky k) sqlite_memory s =
     (if opens (backend s) < k
      then (Inl (Error (''open failed #'' @ show_nat (opens (backend s) + 1)) []),
            s\<lparr>events := events s @ [Connect sqlite_memory],
              backend := (backend s)\<lparr>opens := opens (backend s) + 1\<rparr>\<rparr>)
      else (Inr (SqliteDatabase 7),
            s\<lparr>events := events s @ [Connect sqlite_memory],
              backend := (backend s)\<lparr>opens := opens (backend s) + 1\<rparr>\<rparr>))"
  by (simp add: createConnection_def on_backend_def connect_backend_def createSQLiteConnection_def
      flaky_def sqlite_memory_def io_bind_def io_throw_def missing_def)

lemma empty_pool_eq: "empty_pool =
  \<lparr>connections = [], connectionConfigs = [], healthChecks = [], retryAttempts = [],
   maxRetries = 3, retryDelay = 1000, healthCheckInterval = 30000,
   timers = [(1, Sweep)], next_timer = 2, events = [], backend = \<lparr>opens = 0, closed_handles = []\<rparr>\<rparr>"
  by (simp add: empty_pool_def new_pool_def startHealthChecks_def setInterval_def)

lemma show_small: "show_nat 1 = ''1''" "show_nat 2 = ''2''" "show_nat 3 = ''3''" "show_nat 4 = ''4''"
  by code_simp+

lemma show_small_Suc: "show_nat (Suc 0) = ''1''" "show_nat (Suc (Suc 0)) = ''2''"
  "show_nat (Suc (Suc (Suc 0))) = ''3''" "show_nat (Suc (Suc (Suc (Suc 0)))) = ''4''"
  using show_small by (simp_all add: numeral_eq_Suc)

lemma run2: "getConnection (flaky 2) ''db'' sqlite_memory empty_pool =
  (Inr (SqliteDatabase 7),
   \<lparr>connections = [(''db'', SqliteDatabase 7)], connectionConfigs = [(''db'', sqlite_memory)],
    healthChecks = [(''db'', 2)], retryAttempts = [(''db'', 0)],
    maxRetries = 3, retryDelay = 1000, healthCheckInterval = 30000,
    timers = [(1, Sweep), (2, HealthCheck ''db'' sqlite_memory)], next_timer = 3,
    events = [Connect sqlite_memory, Failed 1 (Error ''open failed #1'' []), Sleep 1000,
              Connect sqlite_memory, Failed 2 (Error ''open failed #2'' []), Sleep 2000,
              Connect sqlite_memory, Established 3],
    backend = \<lparr>opens = 3, closed_handles = []\<rparr>\<rparr>)"
  by (simp add: getConnection_def createConnectionWithRetry_def empty_pool_eq retry_loop.simps
      flaky_createConnection startConnectionHealthCheck_def setInterval_def clearInterval_def
      sleep_def show_small show_small_Suc Let_def)

lemma run9: "getConnection (flaky 9) ''db'' sqlite_memory empty_pool =
  (Inl (Error ''Failed to establish connection db after 4 attempts: open failed #4'' []),
   \<lparr>connections = [], connectionConfigs = [],
    healthChecks = [], retryAttempts = [(''db'', 4)],
    maxRetries = 3, retryDelay = 1000, healthCheckInterval = 30000,
    timers = [(1, Sweep)], next_timer = 2,
    events = [Connect sqlite_memory, Failed 1 (Error ''open failed #1'' []), Sleep 1000,
              Connect sqlite_memory, Failed 2 (Error ''open failed #2'' []), Sleep 2000,
              Connect sqlite_memory, Failed 3 (Error ''open failed #3'' []), Sleep 4000,
              Connect sqlite_memory, Failed 4 (Error ''open failed #4'' [])],
    backend = \<lparr>opens = 4, closed_handles = []\<rparr>\<rparr>)"
  by (simp add: getConnection_def createConnectionWithRetry_def empty_pool_eq retry_loop.simps
      flaky_createConnection startConnectionHealthCheck_def setInterval_def clearInterval_def
      sleep_def show_small show_small_Suc Let_def exhausted_error_def last_error_text_def)

lemma connector_invocations_failure_events:
  "connector_invocations (failure_events cfg d N a es) = length es"
  by (induction es arbitrary: a) (simp_all add: connector_invocations_def)

lemma connector_invocations_append:
  "connector_invocations (xs @ ys) = connector_invocations xs + connector_invocations ys"
  by (simp add: connector_invocations_def)

lemma connector_invocations_success:
  "connector_invocations [Connect cfg, Established n] = 1"
  by (simp add: connector_invocations_def)

lemma getConnection_unhealthy:
  assumes "\<not> healthy_connection_exists drv connId cfg s"
  shows "\<exists>s0. getConnection drv connId cfg s = createConnectionWithRetry drv connId cfg s0 \<and>
              events s0 = events s \<and> connections s0 = connections s \<and>
              retryDelay s0 = retryDelay s \<and> maxRetries s0 = maxRetries s"
proof (cases "map_of (connections s) connId")
  case None
  then show ?thesis
    by (intro exI [of _ s]) (simp add: getConnection_def)
next
  case (Some c)
  obtain ok w' where pr: "probe_backend drv c cfg (backend s) = (ok, w')"
    by (cases "probe_backend drv c cfg (backend s)")
  then have "\<not> ok"
    using assms Some by (simp add: healthy_connection_exists_def isConnectionHealthy_def)
  then show ?thesis
    using Some pr
    by (intro exI [of _ "s\<lparr>backend := w'\<rparr>"]) (simp add: getConnection_def isConnectionHealthy_def)
qed



lemma timers_registered_cong:
  "timers s' = timers s \<Longrightarrow> healthChecks s' = healthChecks s \<Longrightarrow>
   timers_registered s' = timers_registered s"
  by (simp add: timers_registered_def)



lemma timers_registered_removeConnection:
  assumes "timers_registered s"
  shows "timers_registered (snd (removeConnection drv k s))"
proof (cases "removeConnection drv k s")
  case (Pair r s')
  show ?thesis
  proof (cases r)
    case (Inl err)
    with Pair assms show ?thesis
      by (simp add: timers_registered_def removeConnection_Inl)
  next
    case (Inr u)
    note f = removeConnection_Inr [OF Pair [unfolded Inr]]
    have "\<And>p. p \<in> set (timers s') \<Longrightarrow>
            snd p = Sweep \<or> (\<exists>k'. map_of (AList.delete k (healthChecks s)) k' = Some (fst p))"
    proof -
      fix p assume p: "p \<in> set (timers s')"
      then have pin: "p \<in> set (timers s)"
        using removeConnection_timers_subset [of drv k s] Pair by auto
      then have "snd p = Sweep \<or> (\<exists>k'. map_of (healthChecks s) k' = Some (fst p))"
        using assms by (simp add: timers_registered_def list_all_iff)
      then show "snd p = Sweep \<or> (\<exists>k'. map_of (AList.delete k (healthChecks s)) k' = Some (fst p))"
      proof
        assume "snd p = Sweep" then show ?thesis by simp
      next
        assume "\<exists>k'. map_of (healthChecks s) k' = Some (fst p)"
        then obtain k' where k': "map_of (healthChecks s) k' = Some (fst p)" by blast
        have "k' \<noteq> k"
        proof
          assume "k' = k"
          then have "fst p \<notin> fst ` set (timers s')"
            using k' f(3) by (auto simp: delete_filter)
          then show False using p by auto
        qed
        with k' have "map_of (AList.delete k (healthChecks s)) k' = Some (fst p)"
          by (simp add: delete_conv')
        then show ?thesis by blast
      qed
    qed
    then show ?thesis
      using Pair by (simp add: timers_registered_def list_all_iff f(2))
  qed
qed


lemma run0: "getConnection (flaky 0) ''db'' sqlite_memory empty_pool =
  (Inr (SqliteDatabase 7),
   \<lparr>connections = [(''db'', SqliteDatabase 7)], connectionConfigs = [(''db'', sqlite_memory)],
    healthChecks = [(''db'', 2)], retryAttempts = [(''db'', 0)],
    maxRetries = 3, retryDelay = 1000, healthCheckInterval = 30000,
    timers = [(1, Sweep), (2, HealthCheck ''db'' sqlite_memory)], next_timer = 3,
    events = [Connect sqlite_memory, Established 1],
    backend = \<lparr>opens = 1, closed_handles = []\<rparr>\<rparr>)"
  by (simp add: getConnection_def createConnectionWithRetry_def empty_pool_eq retry_loop.simps
      flaky_createConnection startConnectionHealthCheck_def setInterval_def clearInterval_def
      sleep_def Let_def)

lemma unhealthy_empty: "\<not> healthy_connection_exists drv ''db'' cfg empty_pool"
  by (simp add: healthy_connection_exists_def empty_pool_eq)

lemma later0: "healthyConnections_later (flaky 0) (snd (getConnection (flaky 0) ''db'' sqlite_memory empty_pool)) = 1"
  unfolding run0 snd_conv
  by (simp add: healthyConnections_later_def stats_loop_def stats_step_def Let_def
      probe_backend_def flaky_def sqlite_memory_def)

text \<open>
  Claim C3. For every connection id and config, when no healthy connection exists for the
  id, \<open>getConnection\<close> invokes the connector at most \<open>maxRetries + 1\<close> times (4
  with the default 3). What the call does is a run of failed attempts: each invokes the
  connector, logs the failure, and, unless it was the last attempt allowed, sleeps
  \<open>retryDelay * 2^(attempt-1)\<close> (1000, 2000, 4000 ms with the default delay) before
  the next one. If every attempt fails, there were exactly \<open>maxRetries + 1\<close> of them,
  the call throws the error \<open>Failed to establish connection <id> after <n> attempts:
  <message of the last failure>\<close>, and the map of connections is what it was before
  the call: no connection was stored for the id. (The map \<open>retryAttempts\<close> does keep a
  counter for the id, and a connection found unhealthy at the start of the call is not
  removed by it.)
\<close>

theorem getConnection_retries_with_backoff:
  assumes "\<not> healthy_connection_exists drv connId cfg s"
  shows "\<exists>es. connector_invocations (new_events s (snd (getConnection drv connId cfg s)))
                \<le> maxRetries s + 1 \<and>
          (case fst (getConnection drv connId cfg s) of
             Inl err \<Rightarrow>
               length es = maxRetries s + 1 \<and>
               new_events s (snd (getConnection drv connId cfg s)) =
                 failure_events cfg (retryDelay s) (maxRetries s + 1) 1 es \<and>
               err = exhausted_error connId (maxRetries s + 1) (Some (last es)) \<and>
               connections (snd (getConnection drv connId cfg s)) = connections s
           | Inr c \<Rightarrow>
               length es \<le> maxRetries s \<and>
               new_events s (snd (getConnection drv connId cfg s)) =
                 failure_events cfg (retryDelay s) (maxRetries s + 1) 1 es @
                 [Connect cfg, Established (length es + 1)])"
proof -
  from getConnection_unhealthy [OF assms] obtain s0 where
    g: "getConnection drv connId cfg s = createConnectionWithRetry drv connId cfg s0" and
    f: "events s0 = events s" "connections s0 = connections s" "retryDelay s0 = retryDelay s"
       "maxRetries s0 = maxRetries s"
    by blast
  from retry_loop_trace [where drv = drv and connId = connId and cfg = cfg and N = "maxRetries s + 1" and a = 1 and lastError = None and s = s0] obtain es where
    es: "(case fst (retry_loop drv connId cfg (maxRetries s + 1) 1 None s0) of
           Inl err \<Rightarrow>
             length es = maxRetries s + 1 + 1 - 1 \<and>
             events (snd (retry_loop drv connId cfg (maxRetries s + 1) 1 None s0)) =
               events s0 @ failure_events cfg (retryDelay s0) (maxRetries s + 1) 1 es \<and>
             err = exhausted_error connId (maxRetries s + 1) (if es = [] then None else Some (last es)) \<and>
             connections (snd (retry_loop drv connId cfg (maxRetries s + 1) 1 None s0)) = connections s0
         | Inr c \<Rightarrow>
             length es < maxRetries s + 1 + 1 - 1 \<and>
             events (snd (retry_loop drv connId cfg (maxRetries s + 1) 1 None s0)) =
               events s0 @ failure_events cfg (retryDelay s0) (maxRetries s + 1) 1 es @
               [Connect cfg, Established (1 + length es)] \<and>
             map_of (connections (snd (retry_loop drv connId cfg (maxRetries s + 1) 1 None s0))) connId = Some c \<and>
             map_of (retryAttempts (snd (retry_loop drv connId cfg (maxRetries s + 1) 1 None s0))) connId = Some 0)"
    by blast
  have g': "getConnection drv connId cfg s = retry_loop drv connId cfg (maxRetries s + 1) 1 None s0"
    by (simp add: g createConnectionWithRetry_def f)
  show ?thesis
  proof (cases "fst (retry_loop drv connId cfg (maxRetries s + 1) 1 None s0)")
    case (Inl err)
    then show ?thesis
      using es
      by (intro exI [of _ es])
         (auto simp: g' f new_events_def connector_invocations_failure_events)
  next
    case (Inr c)
    then show ?thesis
      using es
      by (intro exI [of _ es])
         (auto simp: g' f new_events_def connector_invocations_failure_events
            connector_invocations_append connector_invocations_success)
  qed
qed

theorem getConnection_retries_with_backoff_witness:
  "\<not> healthy_connection_exists (flaky 9) ''db'' sqlite_memory empty_pool \<and>
   connector_invocations (new_events empty_pool (snd (getConnection (flaky 9) ''db'' sqlite_memory empty_pool)))
     \<le> maxRetries empty_pool + 1 \<and>
   connector_invocations (new_events empty_pool (snd (getConnection (flaky 9) ''db'' sqlite_memory empty_pool))) = 4 \<and>
   fst (getConnection (flaky 9) ''db'' sqlite_memory empty_pool) =
     Inl (Error ''Failed to establish connection db after 4 attempts: open failed #4'' []) \<and>
   new_events empty_pool (snd (getConnection (flaky 9) ''db'' sqlite_memory empty_pool)) =
     [Connect sqlite_memory, Failed 1 (Error ''open failed #1'' []), Sleep 1000,
      Connect sqlite_memory, Failed 2 (Error ''open failed #2'' []), Sleep 2000,
      Connect sqlite_memory, Failed 3 (Error ''open failed #3'' []), Sleep 4000,
      Connect sqlite_memory, Failed 4 (Error ''open failed #4'' [])] \<and>
   connections (snd (getConnection (flaky 9) ''db'' sqlite_memory empty_pool)) = []"
proof -
  have h: "\<not> healthy_connection_exists (flaky 9) ''db'' sqlite_memory empty_pool"
    by (rule unhealthy_empty)
  from getConnection_retries_with_backoff [OF h] have
    "connector_invocations (new_events empty_pool (snd (getConnection (flaky 9) ''db'' sqlite_memory empty_pool)))
       \<le> maxRetries empty_pool + 1"
    by blast
  with h show ?thesis
    by (simp add: run9 new_events_def connector_invocations_def) (simp add: empty_pool_eq)
qed

text \<open>
  Claim C4, as stated, fails: the retry count stored on success is not the number of
  attempts minus one. With a connector that fails exactly twice and then succeeds, and
  \<open>maxRetries = 3\<close>, \<open>getConnection\<close> returns the handle after exactly 3 connector
  invocations, and the retry count recorded for the id is 0, not 2: the success branch
  executes \<open>this.retryAttempts.set(connectionId, 0)\<close>.
\<close>

theorem two_failures_record_zero_retries:
  "fst (getConnection (flaky 2) ''db'' sqlite_memory empty_pool) = Inr (SqliteDatabase 7) \<and>
   connector_invocations (new_events empty_pool (snd (getConnection (flaky 2) ''db'' sqlite_memory empty_pool))) = 3 \<and>
   map_of (retryAttempts (snd (getConnection (flaky 2) ''db'' sqlite_memory empty_pool))) ''db'' = Some 0"
  by (simp add: run2 new_events_def connector_invocations_def) (simp add: empty_pool_eq)

text \<open>
  Claim C4, amended. When no healthy connection exists for the id and \<open>getConnection\<close>
  succeeds, it has created the connection after some number \<open>n\<close> of connector
  invocations, of which the first \<open>n - 1\<close> failed; the pool then stores the new
  connection under the id and resets the id's retry count to 0, whatever \<open>n\<close> was.
\<close>

theorem successful_connection_records_zero_retries:
  assumes "\<not> healthy_connection_exists drv connId cfg s"
    and "fst (getConnection drv connId cfg s) = Inr c"
  shows "map_of (retryAttempts (snd (getConnection drv connId cfg s))) connId = Some 0 \<and>
         map_of (connections (snd (getConnection drv connId cfg s))) connId = Some c \<and>
         (\<exists>es. new_events s (snd (getConnection drv connId cfg s)) =
                 failure_events cfg (retryDelay s) (maxRetries s + 1) 1 es @
                 [Connect cfg, Established (length es + 1)] \<and>
               connector_invocations (new_events s (snd (getConnection drv connId cfg s))) =
                 length es + 1)"
proof -
  from getConnection_unhealthy [OF assms(1)] obtain s0 where
    g: "getConnection drv connId cfg s = createConnectionWithRetry drv connId cfg s0" and
    f: "events s0 = events s" "connections s0 = connections s" "retryDelay s0 = retryDelay s"
       "maxRetries s0 = maxRetries s"
    by blast
  have g': "getConnection drv connId cfg s = retry_loop drv connId cfg (maxRetries s + 1) 1 None s0"
    by (simp add: g createConnectionWithRetry_def f)
  from retry_loop_trace [where drv = drv and connId = connId and cfg = cfg and N = "maxRetries s + 1" and a = 1 and lastError = None and s = s0] assms(2)
  obtain es where
    es: "events (snd (retry_loop drv connId cfg (maxRetries s + 1) 1 None s0)) =
           events s0 @ failure_events cfg (retryDelay s0) (maxRetries s + 1) 1 es @
           [Connect cfg, Established (1 + length es)]"
        "map_of (connections (snd (retry_loop drv connId cfg (maxRetries s + 1) 1 None s0))) connId = Some c"
        "map_of (retryAttempts (snd (retry_loop drv connId cfg (maxRetries s + 1) 1 None s0))) connId = Some 0"
    by (auto simp: g')
  have n: "new_events s (snd (getConnection drv connId cfg s)) =
           failure_events cfg (retryDelay s) (maxRetries s + 1) 1 es @
           [Connect cfg, Established (length es + 1)]"
    using es(1) by (simp add: g' f new_events_def)
  have "connector_invocations (new_events s (snd (getConnection drv connId cfg s))) = length es + 1"
    by (simp only: n connector_invocations_append connector_invocations_failure_events
        connector_invocations_success)
  with n es(2,3) show ?thesis
    by (auto simp: g')
qed

theorem successful_connection_records_zero_retries_witness:
  "\<not> healthy_connection_exists (flaky 2) ''db'' sqlite_memory empty_pool \<and>
   fst (getConnection (flaky 2) ''db'' sqlite_memory empty_pool) = Inr (SqliteDatabase 7) \<and>
   map_of (retryAttempts (snd (getConnection (flaky 2) ''db'' sqlite_memory empty_pool))) ''db'' = Some 0 \<and>
   map_of (connections (snd (getConnection (flaky 2) ''db'' sqlite_memory empty_pool))) ''db'' =
     Some (SqliteDatabase 7)"
proof -
  have h: "\<not> healthy_connection_exists (flaky 2) ''db'' sqlite_memory empty_pool"
    by (rule unhealthy_empty)
  have r: "fst (getConnection (flaky 2) ''db'' sqlite_memory empty_pool) = Inr (SqliteDatabase 7)"
    by (simp add: run2)
  from successful_connection_records_zero_retries [OF h r] h r show ?thesis by blast
qed






text \<open>
  Claim C10. For every state of the pool, the statistics object returned by
  \<open>getConnectionStats\<close> has \<open>activeConnections\<close> equal to 0, however many healthy
  connections the pool holds: the loop only starts the probes, and the callbacks that
  increment \<open>healthyConnections\<close> run after the object has been built from the
  counter's value at that moment. \<open>totalQueries\<close> is always 0 as well.
\<close>

theorem stats_report_zero_active_connections:
  "activeConnections (getConnectionStats drv s) = 0 \<and>
   totalQueries_stats (getConnectionStats drv s) = 0"
  by (simp add: getConnectionStats_def Let_def stats_loop_def stats_loop_healthy)

theorem stats_report_zero_active_connections_witness:
  "connected (getConnectionStats (flaky 0) (snd (getConnection (flaky 0) ''db'' sqlite_memory empty_pool))) = True \<and>
   healthyConnections_later (flaky 0) (snd (getConnection (flaky 0) ''db'' sqlite_memory empty_pool)) = 1 \<and>
   activeConnections (getConnectionStats (flaky 0) (snd (getConnection (flaky 0) ''db'' sqlite_memory empty_pool))) = 0"
proof -
  have c: "connected (getConnectionStats (flaky 0) (snd (getConnection (flaky 0) ''db'' sqlite_memory empty_pool))) = True"
    by (simp add: run0 getConnectionStats_def Let_def)
  from stats_report_zero_active_connections
         [of "flaky 0" "snd (getConnection (flaky 0) ''db'' sqlite_memory empty_pool)"] c later0
  show ?thesis by blast
qed

end
